theory Spec2Isabelle
  imports Main
begin

section \<open>The relational schema (initial migration)\<close>

text \<open>
  Identifiers are UUIDs; only their equality matters, so they are strings.
  Timestamps are natural numbers. Columns filled by a default the model cannot
  compute (\<open>gen_random_uuid()\<close>, \<open>now()\<close> of \<open>profiles\<close> and \<open>user_roles\<close>) are left
  out of the rows.
\<close>

type_synonym uuid = string

datatype complaint_category = Technical | Academic | Behavior | Facility | Other

datatype complaint_status = Pending | Under_Review | Resolved

datatype app_role = Admin | Student

record profiles_row =
  p_id :: uuid
  full_name :: string
  email :: string

record user_roles_row =
  r_user_id :: uuid
  role :: app_role

record complaints_row =
  id :: uuid
  user_id :: uuid
  title :: string
  category :: complaint_category
  description :: string
  file_url :: "string option"
  status :: complaint_status
  admin_remarks :: "string option"
  created_at :: nat
  updated_at :: nat

text \<open>The one reserved address, written as a literal at each place of the source.\<close>

abbreviation bootstrap_email :: string where
  "bootstrap_email \<equiv> ''admin@brototype.com''"

text \<open>\<open>public.has_role(_user_id, _role)\<close>: \<open>SELECT EXISTS (... WHERE user_id = _user_id AND role = _role)\<close>.\<close>

definition has_role :: "user_roles_row list \<Rightarrow> uuid \<Rightarrow> app_role \<Rightarrow> bool" where
  "has_role user_roles uid rl = list_ex (\<lambda>r. r_user_id r = uid \<and> role r = rl) user_roles"

text \<open>\<open>UNIQUE(user_id, role)\<close> on \<open>user_roles\<close>.\<close>

definition user_roles_unique :: "user_roles_row list \<Rightarrow> bool" where
  "user_roles_unique user_roles = distinct (map (\<lambda>r. (r_user_id r, role r)) user_roles)"

section \<open>What the client code does to the outside world\<close>

text \<open>
  Every handler of the client is modelled as a function from its inputs and the
  backend's answers to its resulting state and the list of effects it performed, in
  program order. Requests sent over the network and messages shown to the user
  (toasts) are effects; so are the console lines, which only an operator sees, and an
  exception that no handler catches.
\<close>

datatype zod_issue =
    Title_too_short
  | Title_too_long
  | Invalid_category
  | Description_too_short
  | Description_too_long

text \<open>A browser \<open>File\<close>: its name, its size in bytes and its MIME type.\<close>

record js_file =
  f_name :: string
  f_size :: nat
  f_type :: string

record complaint_insert =
  ins_user_id :: uuid
  ins_title :: string
  ins_category :: complaint_category
  ins_description :: string
  ins_file_url :: "string option"

record complaint_update =
  upd_status :: complaint_status
  upd_admin_remarks :: "string option"

datatype effect =
    Select_user_roles uuid
  | Select_complaints_all
  | Select_complaints_of uuid
  | Select_profiles_in "uuid list"
  | Storage_upload string js_file
  | Insert_complaint complaint_insert
  | Update_complaint uuid complaint_update
  | Toast_error string
  | Toast_zod zod_issue
  | Toast_success string
  | Console_log string
  | Console_error string
  | Uncaught string

fun is_network :: "effect \<Rightarrow> bool" where
  "is_network (Select_user_roles _) = True"
| "is_network Select_complaints_all = True"
| "is_network (Select_complaints_of _) = True"
| "is_network (Select_profiles_in _) = True"
| "is_network (Storage_upload _ _) = True"
| "is_network (Insert_complaint _) = True"
| "is_network (Update_complaint _ _) = True"
| "is_network _ = False"

fun is_toast :: "effect \<Rightarrow> bool" where
  "is_toast (Toast_error _) = True"
| "is_toast (Toast_zod _) = True"
| "is_toast (Toast_success _) = True"
| "is_toast _ = False"

text \<open>
  An awaited backend call is either fulfilled with a \<open>{ data, error }\<close> pair or rejects
  (the promise throws). Both fields of the pair are read by the code on their own, so
  both are kept.
\<close>

record 'a pg_result =
  data :: "'a option"
  error :: "string option"

datatype 'a awaited = Fulfilled 'a | Rejected string

section \<open>Role resolution: \<open>checkAdminRole\<close> (AuthContext)\<close>

text \<open>
  \<open>userEmail\<close> is an optional parameter. Every branch calls \<open>setIsAdmin\<close>, so the
  resulting \<open>isAdmin\<close> does not depend on its earlier value and is returned. The
  query is \<open>from("user_roles").select("role").eq("user_id", userId).eq("role", "admin")
  .maybeSingle()\<close>; \<open>query\<close> is the backend's answer to it.
\<close>

definition checkAdminRole ::
  "(uuid \<Rightarrow> app_role pg_result awaited) \<Rightarrow> uuid \<Rightarrow> string option \<Rightarrow> bool \<times> effect list" where
  "checkAdminRole query userId userEmail =
     (if userEmail = Some ''admin@brototype.com'' then
        (True, [Console_log ''Admin role detected by email:''])
      else
        (case query userId of
           Rejected e \<Rightarrow>
             (False, [Select_user_roles userId, Console_error ''Error checking admin role:''])
         | Fulfilled res \<Rightarrow>
             (let logged =
                    (if error res \<noteq> None
                     then [Console_error ''Error checking admin role from database:'']
                     else [])
              in if error res = None \<and> data res \<noteq> None then
                   (True, [Select_user_roles userId] @ logged
                            @ [Console_log ''Admin role found in database for user:''])
                 else
                   (False, [Select_user_roles userId] @ logged
                             @ [Console_log ''No admin role found for user:'']))))"

text \<open>
  The backend's side of that query, when the transport works. Row-level security
  on \<open>user_roles\<close> (policy "Users can view their own roles": \<open>auth.uid() = user_id\<close>)
  hides every row of another identity from the caller; \<open>maybeSingle()\<close> answers no row
  with \<open>data = null\<close>, one row with that row, and more than one with an error.
\<close>

definition select_admin_role_maybeSingle ::
  "user_roles_row list \<Rightarrow> uuid \<Rightarrow> uuid \<Rightarrow> app_role pg_result" where
  "select_admin_role_maybeSingle user_roles auth_uid userId =
     (case filter (\<lambda>r. auth_uid = r_user_id r \<and> r_user_id r = userId \<and> role r = Admin) user_roles of
        [] \<Rightarrow> \<lparr>data = None, error = None\<rparr>
      | [r] \<Rightarrow> \<lparr>data = Some (role r), error = None\<rparr>
      | _ \<Rightarrow> \<lparr>data = None, error = Some ''more than one row''\<rparr>)"

section \<open>Row-level security on \<open>complaints\<close>\<close>

text \<open>
  Each \<open>CREATE POLICY\<close> of the migration is one predicate over the caller
  (\<open>auth.uid()\<close>, here the id of an authenticated identity) and the row. All of them
  are permissive, so the policies of one command are combined by OR. None of the
  UPDATE policies has a \<open>WITH CHECK\<close> clause, so its \<open>USING\<close> expression is also
  applied to the row as updated.
\<close>

definition students_can_view :: "uuid \<Rightarrow> complaints_row \<Rightarrow> bool" where
  "students_can_view auth_uid c = (auth_uid = user_id c)"

definition students_can_create :: "uuid \<Rightarrow> complaints_row \<Rightarrow> bool" where
  "students_can_create auth_uid c = (auth_uid = user_id c)"

definition students_can_update_pending :: "uuid \<Rightarrow> complaints_row \<Rightarrow> bool" where
  "students_can_update_pending auth_uid c = (auth_uid = user_id c \<and> status c = Pending)"

definition students_can_delete_pending :: "uuid \<Rightarrow> complaints_row \<Rightarrow> bool" where
  "students_can_delete_pending auth_uid c = (auth_uid = user_id c \<and> status c = Pending)"

definition admins_can_view_all :: "user_roles_row list \<Rightarrow> uuid \<Rightarrow> complaints_row \<Rightarrow> bool" where
  "admins_can_view_all user_roles auth_uid c = has_role user_roles auth_uid Admin"

definition admins_can_update_all :: "user_roles_row list \<Rightarrow> uuid \<Rightarrow> complaints_row \<Rightarrow> bool" where
  "admins_can_update_all user_roles auth_uid c = has_role user_roles auth_uid Admin"

definition rls_select :: "user_roles_row list \<Rightarrow> uuid \<Rightarrow> complaints_row \<Rightarrow> bool" where
  "rls_select user_roles auth_uid c =
     (students_can_view auth_uid c \<or> admins_can_view_all user_roles auth_uid c)"

definition rls_update :: "user_roles_row list \<Rightarrow> uuid \<Rightarrow> complaints_row \<Rightarrow> bool" where
  "rls_update user_roles auth_uid c =
     (students_can_update_pending auth_uid c \<or> admins_can_update_all user_roles auth_uid c)"

definition rls_delete :: "user_roles_row list \<Rightarrow> uuid \<Rightarrow> complaints_row \<Rightarrow> bool" where
  "rls_delete user_roles auth_uid c = students_can_delete_pending auth_uid c"

datatype db_error = Not_null_violation | Unique_violation | Rls_violation

text \<open>
  \<open>DELETE FROM complaints WHERE id = cid\<close> issued by \<open>auth_uid\<close>: the rows the DELETE
  policies do not admit are not seen by the command and stay.
\<close>

definition delete_complaint ::
  "user_roles_row list \<Rightarrow> uuid \<Rightarrow> uuid \<Rightarrow> complaints_row list \<Rightarrow> complaints_row list" where
  "delete_complaint user_roles auth_uid cid complaints =
     filter (\<lambda>c. \<not> (id c = cid \<and> rls_delete user_roles auth_uid c)) complaints"

text \<open>
  \<open>UPDATE complaints SET status = .., admin_remarks = .. WHERE id = cid\<close> issued by
  \<open>auth_uid\<close> at time \<open>now\<close>. A row the UPDATE policies do not admit is not seen and stays
  as it is; an admitted row is rewritten, the trigger \<open>update_complaints_updated_at\<close>
  (\<open>BEFORE UPDATE ... FOR EACH ROW\<close>) sets \<open>updated_at\<close>, and the new row must pass the
  policies again or the whole command fails.
\<close>

definition update_updated_at_column :: "nat \<Rightarrow> complaints_row \<Rightarrow> complaints_row" where
  "update_updated_at_column now c = c\<lparr>updated_at := now\<rparr>"

definition update_row ::
  "user_roles_row list \<Rightarrow> uuid \<Rightarrow> nat \<Rightarrow> complaint_update \<Rightarrow> complaints_row
     \<Rightarrow> db_error + complaints_row" where
  "update_row user_roles auth_uid now u c =
     (if \<not> rls_update user_roles auth_uid c then Inr c
      else
        (let c' = update_updated_at_column now
                    (c\<lparr>status := upd_status u, admin_remarks := upd_admin_remarks u\<rparr>)
         in if rls_update user_roles auth_uid c' then Inr c' else Inl Rls_violation))"

fun update_complaint ::
  "user_roles_row list \<Rightarrow> uuid \<Rightarrow> nat \<Rightarrow> complaint_update \<Rightarrow> uuid \<Rightarrow> complaints_row list
     \<Rightarrow> db_error + complaints_row list" where
  "update_complaint user_roles auth_uid now u cid [] = Inr []"
| "update_complaint user_roles auth_uid now u cid (c # cs) =
     (case (if id c = cid then update_row user_roles auth_uid now u c else Inr c) of
        Inl e \<Rightarrow> Inl e
      | Inr c' \<Rightarrow>
          (case update_complaint user_roles auth_uid now u cid cs of
             Inl e \<Rightarrow> Inl e
           | Inr cs' \<Rightarrow> Inr (c' # cs')))"

section \<open>The identity-creation trigger (second migration)\<close>

text \<open>
  The columns of \<open>auth.users\<close> the trigger reads: \<open>id\<close>, \<open>email\<close> (nullable) and
  \<open>raw_user_meta_data->>'full_name'\<close> (null when the key is absent).
\<close>

record auth_users_row =
  au_id :: uuid
  au_email :: "string option"
  au_full_name :: "string option"

record database =
  tbl_auth_users :: "auth_users_row list"
  tbl_profiles :: "profiles_row list"
  tbl_user_roles :: "user_roles_row list"

text \<open>
  \<open>INSERT INTO public.profiles (id, full_name, email)\<close>: \<open>id\<close> is the primary key and
  \<open>email\<close> is \<open>NOT NULL\<close>.
\<close>

definition insert_profile ::
  "uuid \<Rightarrow> string \<Rightarrow> string option \<Rightarrow> profiles_row list \<Rightarrow> db_error + profiles_row list" where
  "insert_profile new_id new_full_name new_email profiles_tbl =
     (case new_email of
        None \<Rightarrow> Inl Not_null_violation
      | Some e \<Rightarrow>
          if list_ex (\<lambda>p. p_id p = new_id) profiles_tbl then Inl Unique_violation
          else Inr (profiles_tbl @ [\<lparr>p_id = new_id, full_name = new_full_name, email = e\<rparr>]))"

text \<open>\<open>INSERT INTO public.user_roles (user_id, role)\<close> under \<open>UNIQUE(user_id, role)\<close>.\<close>

definition insert_user_role ::
  "uuid \<Rightarrow> app_role \<Rightarrow> user_roles_row list \<Rightarrow> db_error + user_roles_row list" where
  "insert_user_role new_user_id new_role user_roles =
     (if has_role user_roles new_user_id new_role then Inl Unique_violation
      else Inr (user_roles @ [\<lparr>r_user_id = new_user_id, role = new_role\<rparr>]))"

text \<open>
  \<open>public.handle_new_user()\<close> as the second migration recreates it. A comparison with
  a null \<open>NEW.email\<close> is not true, so it takes the \<open>ELSE\<close> branch.
\<close>

definition handle_new_user :: "auth_users_row \<Rightarrow> database \<Rightarrow> db_error + database" where
  "handle_new_user NEW db =
     (case insert_profile (au_id NEW)
             (case au_full_name NEW of Some n \<Rightarrow> n | None \<Rightarrow> ''User'')
             (au_email NEW) (tbl_profiles db) of
        Inl e \<Rightarrow> Inl e
      | Inr ps \<Rightarrow>
          (case (if au_email NEW = Some ''admin@brototype.com''
                 then insert_user_role (au_id NEW) Admin (tbl_user_roles db)
                 else insert_user_role (au_id NEW) Student (tbl_user_roles db)) of
             Inl e \<Rightarrow> Inl e
           | Inr rs \<Rightarrow> Inr (db\<lparr>tbl_profiles := ps, tbl_user_roles := rs\<rparr>)))"

text \<open>
  \<open>profiles.id\<close> and \<open>user_roles.user_id\<close> are declared
  \<open>REFERENCES auth.users(id) ON DELETE CASCADE\<close>: every row of either table belongs to
  an identity that exists.
\<close>

definition foreign_keys_hold :: "database \<Rightarrow> bool" where
  "foreign_keys_hold db =
     (list_all (\<lambda>p. list_ex (\<lambda>u. au_id u = p_id p) (tbl_auth_users db)) (tbl_profiles db)
      \<and> list_all (\<lambda>r. list_ex (\<lambda>u. au_id u = r_user_id r) (tbl_auth_users db))
            (tbl_user_roles db))"

text \<open>
  \<open>on_auth_user_created\<close>: \<open>AFTER INSERT ON auth.users FOR EACH ROW\<close>. Inserting one
  identity runs the function once on the new row; an error in it aborts the insert.
\<close>

definition insert_auth_user :: "auth_users_row \<Rightarrow> database \<Rightarrow> db_error + database" where
  "insert_auth_user NEW db =
     (if list_ex (\<lambda>u. au_id u = au_id NEW) (tbl_auth_users db) then Inl Unique_violation
      else handle_new_user NEW (db\<lparr>tbl_auth_users := tbl_auth_users db @ [NEW]\<rparr>))"

section \<open>The student workspace (StudentDashboard)\<close>

text \<open>
  Strings of the form are taken over the Latin-1 range, where one \<open>char\<close> is one
  UTF-16 code unit, so \<open>length\<close> is JavaScript's \<open>.length\<close>. \<open>String.prototype.trim\<close>
  strips white space and line terminators from both ends; in that range these are
  tab, line feed, vertical tab, form feed, carriage return, space and no-break space.
\<close>

definition js_space :: "char \<Rightarrow> bool" where
  "js_space c = (of_char c \<in> {9, 10, 11, 12, 13, 32, 160 :: nat})"

definition js_trim :: "string \<Rightarrow> string" where
  "js_trim s = rev (dropWhile js_space (rev (dropWhile js_space s)))"

text \<open>
  \<open>complaintSchema\<close>: title trimmed, at least 5 and at most 200; category one of the
  five names; description trimmed, at least 20 and at most 2000. Zod parses the keys
  in this order and collects every issue.
\<close>

definition parse_category :: "string \<Rightarrow> complaint_category option" where
  "parse_category s =
     (if s = ''Technical'' then Some Technical
      else if s = ''Academic'' then Some Academic
      else if s = ''Behavior'' then Some Behavior
      else if s = ''Facility'' then Some Facility
      else if s = ''Other'' then Some Other
      else None)"

record validated =
  v_title :: string
  v_category :: complaint_category
  v_description :: string

definition complaintSchema_issues :: "string \<Rightarrow> string \<Rightarrow> string \<Rightarrow> zod_issue list" where
  "complaintSchema_issues t c d =
     (if length (js_trim t) < 5 then [Title_too_short] else [])
     @ (if length (js_trim t) > 200 then [Title_too_long] else [])
     @ (if parse_category c = None then [Invalid_category] else [])
     @ (if length (js_trim d) < 20 then [Description_too_short] else [])
     @ (if length (js_trim d) > 2000 then [Description_too_long] else [])"

definition complaintSchema_parse :: "string \<Rightarrow> string \<Rightarrow> string \<Rightarrow> zod_issue list + validated" where
  "complaintSchema_parse t c d =
     (case (complaintSchema_issues t c d, parse_category c) of
        ([], Some cat) \<Rightarrow>
          Inr \<lparr>v_title = js_trim t, v_category = cat, v_description = js_trim d\<rparr>
      | (issues, _) \<Rightarrow> Inl issues)"

record auth_user =
  u_id :: uuid
  u_email :: "string option"

record student_state =
  s_complaints :: "complaints_row list"
  s_loading :: bool
  s_submitting :: bool
  s_open :: bool
  s_title :: string
  s_category :: string
  s_description :: string
  s_file :: "js_file option"
  s_uploading :: bool

text \<open>
  The backend's answers to the student workspace's requests. \<open>getPublicUrl\<close> builds
  the URL locally, without a request.
\<close>

record student_backend =
  storage_upload :: "string \<Rightarrow> js_file \<Rightarrow> unit pg_result awaited"
  getPublicUrl :: "string \<Rightarrow> string"
  complaints_insert :: "complaint_insert \<Rightarrow> unit pg_result awaited"
  complaints_select_own :: "uuid \<Rightarrow> complaints_row list pg_result awaited"

definition student_fetchComplaints ::
  "student_backend \<Rightarrow> auth_user option \<Rightarrow> student_state \<Rightarrow> student_state \<times> effect list" where
  "student_fetchComplaints be user st =
     (case user of
        None \<Rightarrow> (st, [])
      | Some u \<Rightarrow>
          (case complaints_select_own be (u_id u) of
             Rejected e \<Rightarrow> (st, [Select_complaints_of (u_id u), Uncaught e])
           | Fulfilled res \<Rightarrow>
               if error res \<noteq> None then
                 (st, [Select_complaints_of (u_id u), Toast_error ''Failed to load complaints''])
               else
                 (st\<lparr>s_complaints := (case data res of Some rows \<Rightarrow> rows | None \<Rightarrow> []),
                     s_loading := False\<rparr>,
                  [Select_complaints_of (u_id u)])))"

text \<open>\<open>handleFileChange\<close>, on \<open>e.target.files?.[0]\<close>.\<close>

definition handleFileChange :: "js_file option \<Rightarrow> student_state \<Rightarrow> student_state \<times> effect list" where
  "handleFileChange selectedFile st =
     (case selectedFile of
        None \<Rightarrow> (st, [])
      | Some f \<Rightarrow>
          if f_size f > 10 * 1024 * 1024 then (st, [Toast_error ''File size must be less than 10MB''])
          else (st\<lparr>s_file := Some f\<rparr>, []))"

text \<open>\<open>file.name.split('.').pop()\<close>: what follows the last dot, the whole name without one.\<close>

definition fileExt :: "string \<Rightarrow> string" where
  "fileExt name = rev (takeWhile (\<lambda>c. c \<noteq> CHR ''.'') (rev name))"

text \<open>\<open>Date.now()\<close> inside a template literal: the number in decimal.\<close>

definition digit_char :: "nat \<Rightarrow> char" where
  "digit_char d = ''0123456789'' ! d"

fun decimal :: "nat \<Rightarrow> string" where
  "decimal n =
     (if n < 10 then [digit_char n]
      else decimal (n div 10) @ [digit_char (n mod 10)])"

declare decimal.simps [simp del]

text \<open>\<open>uploadFile\<close>; \<open>now\<close> is \<open>Date.now()\<close>. It returns the public URL or null.\<close>

definition uploadFile ::
  "student_backend \<Rightarrow> nat \<Rightarrow> auth_user option \<Rightarrow> student_state
     \<Rightarrow> string option \<times> student_state \<times> effect list" where
  "uploadFile be now user st =
     (case (s_file st, user) of
        (Some f, Some u) \<Rightarrow>
          (let fileName = u_id u @ ''/'' @ decimal now @ ''.'' @ fileExt (f_name f);
               failed = (None, st\<lparr>s_uploading := False\<rparr>,
                         [Storage_upload fileName f, Console_error ''File upload error:'',
                          Toast_error ''Failed to upload file''])
           in case storage_upload be fileName f of
                Rejected e \<Rightarrow> failed
              | Fulfilled res \<Rightarrow>
                  if error res \<noteq> None then failed
                  else (Some (getPublicUrl be fileName), st\<lparr>s_uploading := False\<rparr>,
                        [Storage_upload fileName f]))
      | _ \<Rightarrow> (None, st, []))"

text \<open>
  \<open>handleSubmit\<close>. \<open>user!.id\<close> throws on a null user, inside the \<open>try\<close>; the
  \<open>finally\<close> clears \<open>submitting\<close> on every path.
\<close>

definition handleSubmit ::
  "student_backend \<Rightarrow> nat \<Rightarrow> auth_user option \<Rightarrow> student_state \<Rightarrow> student_state \<times> effect list" where
  "handleSubmit be now user st =
     (case complaintSchema_parse (s_title st) (s_category st) (s_description st) of
        Inl issues \<Rightarrow> (st\<lparr>s_submitting := False\<rparr>, map Toast_zod (take 1 issues))
      | Inr v \<Rightarrow>
          (case (if s_file st \<noteq> None then uploadFile be now user st else (None, st, [])) of
             (fileUrl, st1, uploaded) \<Rightarrow>
               if s_file st \<noteq> None \<and> (fileUrl = None \<or> fileUrl = Some '''') then
                 (st1\<lparr>s_submitting := False\<rparr>, uploaded)
               else
                 (case user of
                    None \<Rightarrow>
                      (st1\<lparr>s_submitting := False\<rparr>,
                       uploaded @ [Toast_error ''Failed to submit complaint''])
                  | Some u \<Rightarrow>
                      (let row = \<lparr>ins_user_id = u_id u, ins_title = v_title v,
                                  ins_category = v_category v, ins_description = v_description v,
                                  ins_file_url = fileUrl\<rparr>;
                           failed = (st1\<lparr>s_submitting := False\<rparr>,
                                     uploaded @ [Insert_complaint row,
                                                 Toast_error ''Failed to submit complaint''])
                       in case complaints_insert be row of
                            Rejected e \<Rightarrow> failed
                          | Fulfilled res \<Rightarrow>
                              if error res \<noteq> None then failed
                              else
                                (case student_fetchComplaints be user
                                        (st1\<lparr>s_title := '''', s_category := '''',
                                             s_description := '''', s_file := None,
                                             s_open := False\<rparr>) of
                                   (st2, fetched) \<Rightarrow>
                                     (st2\<lparr>s_submitting := False\<rparr>,
                                      uploaded @ [Insert_complaint row,
                                                  Toast_success ''Complaint submitted successfully!'']
                                        @ fetched))))))"

section \<open>The admin workspace (AdminDashboard)\<close>

text \<open>A complaint as the admin page holds it: the row and the joined profile, or null.\<close>

record complaint_with_profile = complaints_row +
  profiles :: "profiles_row option"

fun status_text :: "complaint_status \<Rightarrow> string" where
  "status_text Pending = ''Pending''"
| "status_text Under_Review = ''Under Review''"
| "status_text Resolved = ''Resolved''"

fun category_text :: "complaint_category \<Rightarrow> string" where
  "category_text Technical = ''Technical''"
| "category_text Academic = ''Academic''"
| "category_text Behavior = ''Behavior''"
| "category_text Facility = ''Facility''"
| "category_text Other = ''Other''"

record admin_state =
  a_complaints :: "complaint_with_profile list"
  a_filteredComplaints :: "complaint_with_profile list"
  a_loading :: bool
  a_selectedComplaint :: "complaint_with_profile option"
  a_statusFilter :: string
  a_categoryFilter :: string
  a_updating :: bool
  a_newStatus :: complaint_status
  a_adminRemarks :: string

record admin_backend =
  complaints_select_all :: "complaints_row list pg_result awaited"
  profiles_select_in :: "uuid list \<Rightarrow> profiles_row list pg_result awaited"
  complaints_update :: "uuid \<Rightarrow> complaint_update \<Rightarrow> unit pg_result awaited"

text \<open>\<open>[...new Set(xs)]\<close>: the distinct elements, each at its first occurrence.\<close>

fun js_set_list :: "'a list \<Rightarrow> 'a list \<Rightarrow> 'a list" where
  "js_set_list seen [] = seen"
| "js_set_list seen (x # xs) = js_set_list (if x \<in> set seen then seen else seen @ [x]) xs"

text \<open>The merge of one complaint with the fetched profiles (\<open>profilesData?.find(..) || null\<close>).\<close>

definition merge_profile :: "profiles_row list option \<Rightarrow> complaints_row \<Rightarrow> complaint_with_profile" where
  "merge_profile profilesData complaint =
     complaints_row.extend complaint
       (complaint_with_profile.fields
          (case profilesData of
             None \<Rightarrow> None
           | Some ps \<Rightarrow> find (\<lambda>p. p_id p = user_id complaint) ps))"

definition fetchComplaints :: "admin_backend \<Rightarrow> admin_state \<Rightarrow> admin_state \<times> effect list" where
  "fetchComplaints be st =
     (case complaints_select_all be of
        Rejected e \<Rightarrow> (st, [Select_complaints_all, Uncaught e])
      | Fulfilled cres \<Rightarrow>
          if error cres \<noteq> None then
            (st\<lparr>a_loading := False\<rparr>, [Select_complaints_all, Toast_error ''Failed to load complaints''])
          else
            (case data cres of
               None \<Rightarrow> (st, [Select_complaints_all, Uncaught ''TypeError''])
             | Some complaintsData \<Rightarrow>
                 (let userIds = js_set_list [] (map user_id complaintsData)
                  in case profiles_select_in be userIds of
                       Rejected e \<Rightarrow>
                         (st, [Select_complaints_all, Select_profiles_in userIds, Uncaught e])
                     | Fulfilled pres \<Rightarrow>
                         if error pres \<noteq> None then
                           (st\<lparr>a_loading := False\<rparr>,
                            [Select_complaints_all, Select_profiles_in userIds,
                             Toast_error ''Failed to load user profiles''])
                         else
                           (st\<lparr>a_complaints := map (merge_profile (data pres)) complaintsData,
                               a_loading := False\<rparr>,
                            [Select_complaints_all, Select_profiles_in userIds]))))"

text \<open>
  What a card of the listing shows for the submitter:
  \<open>complaint.profiles?.full_name || "Unknown"\<close> and \<open>complaint.profiles?.email || "N/A"\<close>.
\<close>

definition shown_full_name :: "complaint_with_profile \<Rightarrow> string" where
  "shown_full_name complaint =
     (case profiles complaint of
        None \<Rightarrow> ''Unknown''
      | Some p \<Rightarrow> if full_name p = '''' then ''Unknown'' else full_name p)"

definition shown_email :: "complaint_with_profile \<Rightarrow> string" where
  "shown_email complaint =
     (case profiles complaint of
        None \<Rightarrow> ''N/A''
      | Some p \<Rightarrow> if email p = '''' then ''N/A'' else email p)"

text \<open>
  \<open>filterComplaints\<close>, as a function of the three state values it reads; the page
  stores its result in \<open>filteredComplaints\<close> (\<open>filterComplaints_effect\<close>).
\<close>

definition filterComplaints ::
  "complaint_with_profile list \<Rightarrow> string \<Rightarrow> string \<Rightarrow> complaint_with_profile list" where
  "filterComplaints complaints statusFilter categoryFilter =
     (let filtered = complaints;
          filtered = (if statusFilter \<noteq> ''all''
                      then filter (\<lambda>c. status_text (status c) = statusFilter) filtered
                      else filtered);
          filtered = (if categoryFilter \<noteq> ''all''
                      then filter (\<lambda>c. category_text (category c) = categoryFilter) filtered
                      else filtered)
      in filtered)"

definition filterComplaints_effect :: "admin_state \<Rightarrow> admin_state" where
  "filterComplaints_effect st =
     st\<lparr>a_filteredComplaints :=
          filterComplaints (a_complaints st) (a_statusFilter st) (a_categoryFilter st)\<rparr>"

text \<open>
  \<open>handleUpdateComplaint\<close>. \<open>newStatus\<close> is one of the three status names and never
  falsy; \<open>adminRemarks || null\<close> turns the empty string into null. The list is fetched
  again after a successful update.
\<close>

definition handleUpdateComplaint :: "admin_backend \<Rightarrow> admin_state \<Rightarrow> admin_state \<times> effect list" where
  "handleUpdateComplaint be st =
     (case a_selectedComplaint st of
        None \<Rightarrow> (st, [])
      | Some selectedComplaint \<Rightarrow>
          (let u = \<lparr>upd_status = a_newStatus st,
                    upd_admin_remarks =
                      (if a_adminRemarks st = '''' then None else Some (a_adminRemarks st))\<rparr>;
               sent = Update_complaint (id selectedComplaint) u
           in case complaints_update be (id selectedComplaint) u of
                Rejected e \<Rightarrow> (st\<lparr>a_updating := True\<rparr>, [sent, Uncaught e])
              | Fulfilled res \<Rightarrow>
                  if error res \<noteq> None then
                    (st\<lparr>a_updating := False\<rparr>, [sent, Toast_error ''Failed to update complaint''])
                  else
                    (case fetchComplaints be
                            (st\<lparr>a_selectedComplaint := None, a_newStatus := Pending,
                                a_adminRemarks := ''''\<rparr>) of
                       (st', fetched) \<Rightarrow>
                         (st'\<lparr>a_updating := False\<rparr>,
                          [sent, Toast_success ''Complaint updated successfully!''] @ fetched))))"

section \<open>The \<open>create-admin\<close> edge function\<close>

record http_request =
  http_method :: string

datatype response_body =
    Text string
  | Message string
  | Message_user string uuid "string option"
  | Error_message string

record http_response =
  res_status :: nat
  res_body :: response_body

record create_user_args =
  arg_email :: string
  arg_password :: string
  arg_email_confirm :: bool
  arg_full_name :: string

datatype admin_call = List_users | Create_user create_user_args

text \<open>
  What a \<open>throw\<close> or a rejected promise carries: an \<open>Error\<close> with its message, or any
  other value. The \<open>catch\<close> of the handler answers 400 with
  \<open>error instanceof Error ? error.message : 'Unknown error'\<close>.
\<close>

datatype js_thrown = Thrown_error string | Thrown_other

definition catch_reply :: "js_thrown \<Rightarrow> http_response" where
  "catch_reply t =
     \<lparr>res_status = 400,
      res_body = Error_message (case t of Thrown_error m \<Rightarrow> m | Thrown_other \<Rightarrow> ''Unknown error'')\<rparr>"

text \<open>
  The answers of the auth admin API. \<open>listUsers()\<close> answers \<open>{ data, error }\<close>, where
  \<open>data\<close> here is \<open>data.users\<close>, or null for a nullish \<open>data\<close>; the handler takes
  \<open>data\<close> only. \<open>createUser\<close> answers \<open>{ data: { user }, error }\<close>; its error is
  thrown as it is.
\<close>

record create_user_result =
  cu_user :: "auth_user option"
  cu_error :: "js_thrown option"

record admin_api =
  listUsers :: "js_thrown + auth_user list pg_result"
  createUser :: "create_user_args \<Rightarrow> js_thrown + create_user_result"

text \<open>
  What the handler takes from its runtime: \<open>Deno.env.get\<close> (which answers a value
  or undefined), the imported \<open>createClient\<close> (called with the two environment values
  and fixed options; it gives the client or throws) and the message of the
  \<open>TypeError\<close> that reading \<open>newUser.user.id\<close> of a null user throws.
\<close>

record deno =
  env_get :: "string \<Rightarrow> string option"
  createClient :: "string \<Rightarrow> string \<Rightarrow> js_thrown + admin_api"
  null_read_message :: string

text \<open>\<open>Deno.env.get(name) ?? ''\<close>.\<close>

definition env_or_empty :: "deno \<Rightarrow> string \<Rightarrow> string" where
  "env_or_empty d name = (case env_get d name of Some v \<Rightarrow> v | None \<Rightarrow> '''')"

definition create_admin :: "deno \<Rightarrow> http_request \<Rightarrow> http_response \<times> admin_call list" where
  "create_admin d req =
     (if http_method req = ''OPTIONS'' then (\<lparr>res_status = 200, res_body = Text ''ok''\<rparr>, [])
      else
        (case createClient d (env_or_empty d ''SUPABASE_URL'')
                (env_or_empty d ''SUPABASE_SERVICE_ROLE_KEY'') of
           Inl t \<Rightarrow> (catch_reply t, [])
         | Inr supabaseAdmin \<Rightarrow>
             (case listUsers supabaseAdmin of
                Inl t \<Rightarrow> (catch_reply t, [List_users])
              | Inr listed \<Rightarrow>
                  if (case data listed of
                        None \<Rightarrow> False
                      | Some users \<Rightarrow>
                          list_ex (\<lambda>u. u_email u = Some ''admin@brototype.com'') users)
                  then
                    (\<lparr>res_status = 200, res_body = Message ''Admin account already exists''\<rparr>,
                     [List_users])
                  else
                    (let args = \<lparr>arg_email = ''admin@brototype.com'',
                                 arg_password = ''password123'',
                                 arg_email_confirm = True, arg_full_name = ''Admin''\<rparr>
                     in case createUser supabaseAdmin args of
                          Inl t \<Rightarrow> (catch_reply t, [List_users, Create_user args])
                        | Inr res \<Rightarrow>
                            (case cu_error res of
                               Some createError \<Rightarrow>
                                 (catch_reply createError, [List_users, Create_user args])
                             | None \<Rightarrow>
                                 (case cu_user res of
                                    None \<Rightarrow>
                                      (catch_reply (Thrown_error (null_read_message d)),
                                       [List_users, Create_user args])
                                  | Some newUser \<Rightarrow>
                                      (\<lparr>res_status = 200,
                                        res_body =
                                          Message_user ''Admin account created successfully''
                                            (u_id newUser) (u_email newUser)\<rparr>,
                                       [List_users, Create_user args])))))))"

section \<open>The attachment bucket (storage migration)\<close>

text \<open>
  The two settings the bucket \<open>complaint-files\<close> is created with. No function of the
  client reads them.
\<close>

definition file_size_limit :: nat where
  "file_size_limit = 10485760"

definition allowed_mime_types :: "string list" where
  "allowed_mime_types =
     [''image/jpeg'', ''image/png'', ''image/gif'', ''image/webp'', ''application/pdf'',
      ''application/msword'',
      ''application/vnd.openxmlformats-officedocument.wordprocessingml.document'']"

section \<open>Reading a list of effects\<close>

definition uploaded_files :: "effect list \<Rightarrow> js_file list" where
  "uploaded_files es = List.map_filter (\<lambda>e. case e of Storage_upload _ f \<Rightarrow> Some f | _ \<Rightarrow> None) es"

definition inserted_complaints :: "effect list \<Rightarrow> complaint_insert list" where
  "inserted_complaints es = List.map_filter (\<lambda>e. case e of Insert_complaint r \<Rightarrow> Some r | _ \<Rightarrow> None) es"

definition sent_updates :: "effect list \<Rightarrow> (uuid \<times> complaint_update) list" where
  "sent_updates es =
     List.map_filter (\<lambda>e. case e of Update_complaint cid u \<Rightarrow> Some (cid, u) | _ \<Rightarrow> None) es"

section \<open>Concrete inputs\<close>

text \<open>
  The scenario of the specification: a student with a well-formed complaint about the
  lab wifi, three files (a small picture, a small archive whose type the bucket does
  not allow, a picture of 15MB), a backend that accepts every request and one whose
  storage refuses the upload.
\<close>

definition ex_user :: auth_user where
  "ex_user = \<lparr>u_id = ''u-3'', u_email = Some ''ann@example.com''\<rparr>"

definition ex_form :: student_state where
  "ex_form =
     \<lparr>s_complaints = [], s_loading = False, s_submitting = True, s_open = True,
      s_title = ''Wifi down'', s_category = ''Technical'',
      s_description = ''The lab wifi has been down since Monday morning'',
      s_file = None, s_uploading = False\<rparr>"

definition ex_png :: js_file where
  "ex_png = \<lparr>f_name = ''router.png'', f_size = 2048, f_type = ''image/png''\<rparr>"

definition ex_zip :: js_file where
  "ex_zip = \<lparr>f_name = ''logs.zip'', f_size = 2048, f_type = ''application/zip''\<rparr>"

definition ex_15MB :: js_file where
  "ex_15MB = \<lparr>f_name = ''lab.png'', f_size = 15 * 1024 * 1024, f_type = ''image/png''\<rparr>"

definition ex_backend :: student_backend where
  "ex_backend =
     \<lparr>storage_upload = (\<lambda>name f. Fulfilled \<lparr>data = Some (), error = None\<rparr>),
      getPublicUrl = (\<lambda>name. ''https://files.example/'' @ name),
      complaints_insert = (\<lambda>row. Fulfilled \<lparr>data = None, error = None\<rparr>),
      complaints_select_own = (\<lambda>uid. Fulfilled \<lparr>data = Some [], error = None\<rparr>)\<rparr>"

definition ex_backend_upload_refused :: student_backend where
  "ex_backend_upload_refused =
     ex_backend\<lparr>storage_upload :=
                  (\<lambda>name f. Fulfilled \<lparr>data = None, error = Some ''upload refused''\<rparr>)\<rparr>"

text \<open>
  An admin \<open>u-1\<close> and two students \<open>u-3\<close>, \<open>u-4\<close>; a complaint of \<open>u-3\<close>; the admin
  page with that complaint, resolved, opened in the dialog to be set back to Pending
  with empty remarks.
\<close>

definition ex_roles :: "user_roles_row list" where
  "ex_roles =
     [\<lparr>r_user_id = ''u-1'', role = Admin\<rparr>, \<lparr>r_user_id = ''u-3'', role = Student\<rparr>,
      \<lparr>r_user_id = ''u-4'', role = Student\<rparr>]"

definition ex_complaint :: complaints_row where
  "ex_complaint =
     \<lparr>id = ''c-1'', user_id = ''u-3'', title = ''Wifi down'', category = Technical,
      description = ''The lab wifi has been down since Monday morning'', file_url = None,
      status = Pending, admin_remarks = None, created_at = 10, updated_at = 10\<rparr>"

definition ex_profile :: profiles_row where
  "ex_profile = \<lparr>p_id = ''u-3'', full_name = ''Ann'', email = ''ann@example.com''\<rparr>"

definition ex_admin_backend :: admin_backend where
  "ex_admin_backend =
     \<lparr>complaints_select_all =
        Fulfilled \<lparr>data = Some [ex_complaint, ex_complaint\<lparr>id := ''c-2'', user_id := ''u-4''\<rparr>],
                   error = None\<rparr>,
      profiles_select_in = (\<lambda>ids. Fulfilled \<lparr>data = Some [ex_profile], error = None\<rparr>),
      complaints_update = (\<lambda>cid u. Fulfilled \<lparr>data = None, error = None\<rparr>)\<rparr>"

definition ex_admin_state :: admin_state where
  "ex_admin_state =
     \<lparr>a_complaints = [], a_filteredComplaints = [], a_loading = False,
      a_selectedComplaint = Some (merge_profile None (ex_complaint\<lparr>status := Resolved\<rparr>)),
      a_statusFilter = ''all'', a_categoryFilter = ''all'', a_updating = False,
      a_newStatus = Pending, a_adminRemarks = ''''\<rparr>"

text \<open>A database with the admin's identity only, and a new identity signing up.\<close>

definition ex_db :: database where
  "ex_db =
     \<lparr>tbl_auth_users = [\<lparr>au_id = ''u-1'', au_email = Some ''admin@brototype.com'',
                           au_full_name = Some ''Admin''\<rparr>],
      tbl_profiles = [\<lparr>p_id = ''u-1'', full_name = ''Admin'', email = ''admin@brototype.com''\<rparr>],
      tbl_user_roles = [\<lparr>r_user_id = ''u-1'', role = Admin\<rparr>]\<rparr>"

definition ex_new_user :: auth_users_row where
  "ex_new_user = \<lparr>au_id = ''u-3'', au_email = Some ''ann@example.com'', au_full_name = None\<rparr>"

text \<open>
  A runtime for the edge function: both environment values set, a \<open>createClient\<close>
  that refuses an empty URL or key, and an auth service that lists one student
  account and creates what it is asked to.
\<close>

definition ex_api :: admin_api where
  "ex_api =
     \<lparr>listUsers = Inr \<lparr>data = Some [ex_user], error = None\<rparr>,
      createUser =
        (\<lambda>args. Inr \<lparr>cu_user = Some \<lparr>u_id = ''u-9'', u_email = Some (arg_email args)\<rparr>,
                       cu_error = None\<rparr>)\<rparr>"

definition ex_deno :: deno where
  "ex_deno =
     \<lparr>env_get =
        (\<lambda>name. if name = ''SUPABASE_URL'' then Some ''https://project.example''
                 else if name = ''SUPABASE_SERVICE_ROLE_KEY'' then Some ''service-role-key''
                 else None),
      createClient =
        (\<lambda>url key. if url = '''' then Inl (Thrown_error ''supabaseUrl is required.'')
                    else if key = '''' then Inl (Thrown_error ''supabaseKey is required.'')
                    else Inr ex_api),
      null_read_message = ''Cannot read properties of null''\<rparr>"

section \<open>Role resolution: properties\<close>

text \<open>
  C1. For the reserved bootstrap address, \<open>checkAdminRole\<close> yields \<open>isAdmin = true\<close>
  whatever the backend would answer (so whatever \<open>user_roles\<close> holds), and it does so
  before any query: no network request is among its effects.
\<close>

theorem checkAdminRole_bootstrap_email:
  "fst (checkAdminRole query userId (Some bootstrap_email)) = True
   \<and> \<not> list_ex is_network (snd (checkAdminRole query userId (Some bootstrap_email)))"
  by (simp add: checkAdminRole_def)

theorem checkAdminRole_bootstrap_email_witness:
  "fst (checkAdminRole (\<lambda>u. Fulfilled \<lparr>data = None, error = Some ''permission denied''\<rparr>)
          ''u-1'' (Some ''admin@brototype.com'')) = True
   \<and> \<not> list_ex is_network
         (snd (checkAdminRole (\<lambda>u. Fulfilled \<lparr>data = None, error = Some ''permission denied''\<rparr>)
                 ''u-1'' (Some ''admin@brototype.com'')))"
  using checkAdminRole_bootstrap_email
          [of "\<lambda>u. Fulfilled \<lparr>data = None, error = Some ''permission denied''\<rparr>" "''u-1''"]
  by simp

text \<open>
  Under \<open>UNIQUE(user_id, role)\<close> at most one row has a given identity and role, so
  \<open>maybeSingle()\<close> on the caller's own admin rows never meets two.
\<close>

lemma filter_key_at_most_one:
  "distinct (map f xs) \<Longrightarrow> length (filter (\<lambda>x. f x = k) xs) \<le> 1"
proof (induction xs)
  case Nil
  then show ?case by simp
next
  case (Cons x xs)
  show ?case
  proof (cases "f x = k")
    case True
    with Cons.prems have "k \<notin> f ` set xs" by auto
    then have "filter (\<lambda>x. f x = k) xs = []" by (auto simp: filter_empty_conv)
    with True show ?thesis by simp
  next
    case False
    with Cons show ?thesis by simp
  qed
qed

lemma select_admin_role_own:
  assumes "user_roles_unique user_roles"
  shows "select_admin_role_maybeSingle user_roles userId userId
           = \<lparr>data = (if has_role user_roles userId Admin then Some Admin else None), error = None\<rparr>"
proof -
  let ?P = "\<lambda>r. userId = r_user_id r \<and> r_user_id r = userId \<and> role r = Admin"
  have eq: "filter ?P user_roles = filter (\<lambda>r. (r_user_id r, role r) = (userId, Admin)) user_roles"
    by (rule filter_cong) auto
  have "distinct (map (\<lambda>r. (r_user_id r, role r)) user_roles)"
    using assms by (simp add: user_roles_unique_def)
  then have "length (filter (\<lambda>r. (r_user_id r, role r) = (userId, Admin)) user_roles) \<le> 1"
    by (rule filter_key_at_most_one)
  then have le: "length (filter ?P user_roles) \<le> 1"
    by (simp only: eq)
  have ex: "has_role user_roles userId Admin \<longleftrightarrow> filter ?P user_roles \<noteq> []"
    by (auto simp: has_role_def list_ex_iff filter_empty_conv)
  show ?thesis
  proof (cases "filter ?P user_roles")
    case Nil
    with ex show ?thesis by (simp add: select_admin_role_maybeSingle_def)
  next
    case (Cons r rs)
    with le have rs: "rs = []" by simp
    from Cons have "r \<in> set (filter ?P user_roles)" by simp
    then have "role r = Admin" by simp
    with Cons rs ex show ?thesis by (simp add: select_admin_role_maybeSingle_def)
  qed
qed

text \<open>
  C2. For any other email (or none), \<open>isAdmin\<close> is true exactly when the query is
  fulfilled without an error and with a row; against a \<open>user_roles\<close> table that keeps
  its uniqueness constraint, read by the identity itself, that is exactly when the table
  holds the (identity, admin) row. A fulfilled query with an error and a rejected
  (throwing) query both give \<open>isAdmin = false\<close>, and no toast is among the effects on
  any path: the failure only reaches the console.
\<close>

theorem checkAdminRole_other_email:
  assumes "userEmail \<noteq> Some bootstrap_email"
  shows "(user_roles_unique user_roles \<longrightarrow>
            fst (checkAdminRole (\<lambda>u. Fulfilled (select_admin_role_maybeSingle user_roles userId u))
                   userId userEmail) = has_role user_roles userId Admin)
       \<and> (\<forall>res. query userId = Fulfilled res \<longrightarrow>
            fst (checkAdminRole query userId userEmail) = (error res = None \<and> data res \<noteq> None))
       \<and> (\<forall>e. query userId = Rejected e \<longrightarrow> fst (checkAdminRole query userId userEmail) = False)
       \<and> \<not> list_ex is_toast (snd (checkAdminRole query userId userEmail))"
proof -
  have a: "user_roles_unique user_roles \<longrightarrow>
            fst (checkAdminRole (\<lambda>u. Fulfilled (select_admin_role_maybeSingle user_roles userId u))
                   userId userEmail) = has_role user_roles userId Admin"
    using assms by (simp add: checkAdminRole_def select_admin_role_own)
  have b: "\<forall>res. query userId = Fulfilled res \<longrightarrow>
            fst (checkAdminRole query userId userEmail) = (error res = None \<and> data res \<noteq> None)"
    using assms by (simp add: checkAdminRole_def Let_def)
  have c: "\<forall>e. query userId = Rejected e \<longrightarrow> fst (checkAdminRole query userId userEmail) = False"
    using assms by (simp add: checkAdminRole_def)
  have d: "\<not> list_ex is_toast (snd (checkAdminRole query userId userEmail))"
    using assms by (simp add: checkAdminRole_def Let_def split: awaited.splits)
  from a b c d show ?thesis by blast
qed

theorem checkAdminRole_other_email_witness:
  "fst (checkAdminRole
          (\<lambda>u. Fulfilled (select_admin_role_maybeSingle
                  [\<lparr>r_user_id = ''u-2'', role = Student\<rparr>, \<lparr>r_user_id = ''u-2'', role = Admin\<rparr>]
                  ''u-2'' u))
          ''u-2'' (Some ''ann@example.com''))
     = has_role [\<lparr>r_user_id = ''u-2'', role = Student\<rparr>, \<lparr>r_user_id = ''u-2'', role = Admin\<rparr>]
         ''u-2'' Admin
   \<and> has_role [\<lparr>r_user_id = ''u-2'', role = Student\<rparr>, \<lparr>r_user_id = ''u-2'', role = Admin\<rparr>]
         ''u-2'' Admin
   \<and> fst (checkAdminRole (\<lambda>u. Rejected ''fetch failed'') ''u-2'' (Some ''ann@example.com'')) = False
   \<and> \<not> list_ex is_toast
         (snd (checkAdminRole (\<lambda>u. Rejected ''fetch failed'') ''u-2'' (Some ''ann@example.com'')))"
  using checkAdminRole_other_email
          [of "Some ''ann@example.com''"
              "[\<lparr>r_user_id = ''u-2'', role = Student\<rparr>, \<lparr>r_user_id = ''u-2'', role = Admin\<rparr>]"
              "''u-2''" "\<lambda>u. Rejected ''fetch failed''"]
  by (simp add: user_roles_unique_def has_role_def)

section \<open>Row-level security: properties\<close>

text \<open>
  C3, as the code has it. For an identity without the admin role, the DELETE policy
  and the UPDATE policies admit a complaint exactly when the identity owns it and its
  status is Pending. A DELETE by id removes such a row and leaves every other row in
  the table. An UPDATE of status and remarks leaves a row that is not admitted
  unchanged; on an admitted row it goes through when the new status is again Pending,
  and is refused as a violation of the policy otherwise, because the same expression
  is applied to the row as updated.
\<close>

theorem student_update_delete_iff_own_pending:
  assumes "\<not> has_role user_roles auth_uid Admin"
  shows "rls_update user_roles auth_uid c = (auth_uid = user_id c \<and> status c = Pending)
       \<and> rls_delete user_roles auth_uid c = (auth_uid = user_id c \<and> status c = Pending)
       \<and> (c \<in> set (delete_complaint user_roles auth_uid (id c) complaints)
            \<longleftrightarrow> c \<in> set complaints \<and> \<not> (auth_uid = user_id c \<and> status c = Pending))
       \<and> update_row user_roles auth_uid now u c
           = (if auth_uid = user_id c \<and> status c = Pending then
                (if upd_status u = Pending
                 then Inr (c\<lparr>status := Pending, admin_remarks := upd_admin_remarks u,
                             updated_at := now\<rparr>)
                 else Inl Rls_violation)
              else Inr c)"
proof -
  have upd: "rls_update user_roles auth_uid r = (auth_uid = user_id r \<and> status r = Pending)" for r
    using assms
    by (simp add: rls_update_def students_can_update_pending_def admins_can_update_all_def)
  have del: "rls_delete user_roles auth_uid r = (auth_uid = user_id r \<and> status r = Pending)" for r
    by (simp add: rls_delete_def students_can_delete_pending_def)
  have table: "c \<in> set (delete_complaint user_roles auth_uid (id c) complaints)
                 \<longleftrightarrow> c \<in> set complaints \<and> \<not> (auth_uid = user_id c \<and> status c = Pending)"
    by (auto simp: delete_complaint_def del)
  have row: "update_row user_roles auth_uid now u c
               = (if auth_uid = user_id c \<and> status c = Pending then
                    (if upd_status u = Pending
                     then Inr (c\<lparr>status := Pending, admin_remarks := upd_admin_remarks u,
                                 updated_at := now\<rparr>)
                     else Inl Rls_violation)
                  else Inr c)"
  proof (cases "auth_uid = user_id c \<and> status c = Pending")
    case False
    then have "\<not> rls_update user_roles auth_uid c"
      using upd[of c] by blast
    then have "update_row user_roles auth_uid now u c = Inr c"
      by (simp add: update_row_def)
    with False show ?thesis
      by auto
  next
    case True
    let ?c' = "c\<lparr>status := upd_status u, admin_remarks := upd_admin_remarks u,
                 updated_at := now\<rparr>"
    have old: "rls_update user_roles auth_uid c"
      using upd[of c] True by blast
    have new: "rls_update user_roles auth_uid ?c' = (upd_status u = Pending)"
      using upd[of ?c'] True by simp
    have "update_row user_roles auth_uid now u c
            = (if upd_status u = Pending then Inr ?c' else Inl Rls_violation)"
      using old new by (simp add: update_row_def update_updated_at_column_def Let_def)
    with True show ?thesis
      by (cases "upd_status u = Pending") auto
  qed
  show ?thesis
    using upd[of c] del[of c] table row by (simp only: simp_thms)
qed

theorem student_update_delete_iff_own_pending_witness:
  "rls_update ex_roles ''u-3'' ex_complaint
   \<and> rls_delete ex_roles ''u-3'' ex_complaint
   \<and> delete_complaint ex_roles ''u-3'' ''c-1'' [ex_complaint] = []
   \<and> update_row ex_roles ''u-3'' 99 \<lparr>upd_status = Pending, upd_admin_remarks = None\<rparr> ex_complaint
       = Inr (ex_complaint\<lparr>updated_at := 99\<rparr>)
   \<and> \<not> rls_update ex_roles ''u-4'' ex_complaint
   \<and> \<not> rls_delete ex_roles ''u-4'' ex_complaint
   \<and> ex_complaint \<in> set (delete_complaint ex_roles ''u-4'' ''c-1'' [ex_complaint])
   \<and> update_row ex_roles ''u-4'' 99 \<lparr>upd_status = Resolved, upd_admin_remarks = None\<rparr> ex_complaint
       = Inr ex_complaint
   \<and> \<not> rls_update ex_roles ''u-3'' (ex_complaint\<lparr>status := Under_Review\<rparr>)
   \<and> \<not> rls_delete ex_roles ''u-3'' (ex_complaint\<lparr>status := Resolved\<rparr>)"
proof -
  have s3: "\<not> has_role ex_roles ''u-3'' Admin" and s4: "\<not> has_role ex_roles ''u-4'' Admin"
    by (simp_all add: ex_roles_def has_role_def)
  have own: "''u-3'' = user_id ex_complaint \<and> status ex_complaint = Pending"
    and other: "''u-4'' \<noteq> user_id ex_complaint"
    and key: "id ex_complaint = ''c-1''"
    by (simp_all add: ex_complaint_def)
  have gone: "delete_complaint ex_roles ''u-3'' ''c-1'' [ex_complaint] = []"
    using student_update_delete_iff_own_pending[OF s3, of ex_complaint "[ex_complaint]"] own key
    by (simp add: delete_complaint_def)
  have kept: "update_row ex_roles ''u-3'' 99 \<lparr>upd_status = Pending, upd_admin_remarks = None\<rparr>
                ex_complaint = Inr (ex_complaint\<lparr>updated_at := 99\<rparr>)"
    using student_update_delete_iff_own_pending
            [OF s3, of ex_complaint "[ex_complaint]" 99
               "\<lparr>upd_status = Pending, upd_admin_remarks = None\<rparr>"]
    by (simp add: ex_complaint_def)
  note mine = student_update_delete_iff_own_pending
                [OF s3, of ex_complaint "[ex_complaint]" 99
                   "\<lparr>upd_status = Pending, upd_admin_remarks = None\<rparr>"]
  note theirs = student_update_delete_iff_own_pending
                  [OF s4, of ex_complaint "[ex_complaint]" 99
                     "\<lparr>upd_status = Resolved, upd_admin_remarks = None\<rparr>"]
  note reviewed = student_update_delete_iff_own_pending
                    [OF s3, of "ex_complaint\<lparr>status := Under_Review\<rparr>" "[]" 99
                       "\<lparr>upd_status = Pending, upd_admin_remarks = None\<rparr>"]
  note resolved = student_update_delete_iff_own_pending
                    [OF s3, of "ex_complaint\<lparr>status := Resolved\<rparr>" "[]" 99
                       "\<lparr>upd_status = Pending, upd_admin_remarks = None\<rparr>"]
  have a: "rls_update ex_roles ''u-3'' ex_complaint \<and> rls_delete ex_roles ''u-3'' ex_complaint"
    using mine own by blast
  have b: "\<not> rls_update ex_roles ''u-4'' ex_complaint \<and> \<not> rls_delete ex_roles ''u-4'' ex_complaint"
    using theirs other by blast
  have c: "ex_complaint \<in> set (delete_complaint ex_roles ''u-4'' ''c-1'' [ex_complaint])"
    using theirs other key by simp
  have d: "update_row ex_roles ''u-4'' 99 \<lparr>upd_status = Resolved, upd_admin_remarks = None\<rparr>
             ex_complaint = Inr ex_complaint"
    using theirs other by simp
  have e: "\<not> rls_update ex_roles ''u-3'' (ex_complaint\<lparr>status := Under_Review\<rparr>)"
    using reviewed by simp
  have f: "\<not> rls_delete ex_roles ''u-3'' (ex_complaint\<lparr>status := Resolved\<rparr>)"
    using resolved by simp
  from a b c d e f gone kept show ?thesis by blast
qed

text \<open>
  C3 as stated fails for UPDATE: student \<open>u-3\<close> owns the Pending complaint, yet the
  update that moves it to Under Review is refused by the policy.
\<close>

theorem student_update_counterexample:
  "\<not> has_role ex_roles ''u-3'' Admin
   \<and> user_id ex_complaint = ''u-3''
   \<and> status ex_complaint = Pending
   \<and> update_row ex_roles ''u-3'' 99 \<lparr>upd_status = Under_Review, upd_admin_remarks = None\<rparr>
         ex_complaint
       = Inl Rls_violation
   \<and> update_complaint ex_roles ''u-3'' 99 \<lparr>upd_status = Under_Review, upd_admin_remarks = None\<rparr>
         ''c-1'' [ex_complaint]
       = Inl Rls_violation"
  by (simp add: ex_roles_def ex_complaint_def has_role_def update_row_def rls_update_def
        students_can_update_pending_def admins_can_update_all_def update_updated_at_column_def)

section \<open>The identity-creation trigger: properties\<close>

lemma no_rows_of_new_identity:
  assumes "foreign_keys_hold db" and "\<not> list_ex (\<lambda>u. au_id u = new_id) (tbl_auth_users db)"
  shows "\<not> list_ex (\<lambda>p. p_id p = new_id) (tbl_profiles db)"
    and "\<not> has_role (tbl_user_roles db) new_id rl"
    and "filter (\<lambda>r. r_user_id r = new_id) (tbl_user_roles db) = []"
  using assms
  by (auto simp: foreign_keys_hold_def has_role_def list_ex_iff list_all_iff filter_empty_conv)

text \<open>
  C7. Inserting a new identity (an id no identity has yet, into a database whose
  foreign keys hold) runs the trigger function once. With an email, the insert
  succeeds: the identity is added, \<open>profiles\<close> grows by exactly the profile of the new
  identity, and \<open>user_roles\<close> grows by exactly one row, which is the only row of that
  identity; its role is admin when the email is the reserved address and student
  otherwise; the foreign keys still hold. Without an email the profile cannot be
  written and the insert fails as a whole, so no identity exists without its rows.
\<close>

theorem insert_auth_user_creates_profile_and_role:
  assumes "foreign_keys_hold db"
    and "\<not> list_ex (\<lambda>u. au_id u = au_id NEW) (tbl_auth_users db)"
  shows "(au_email NEW = None \<longrightarrow> insert_auth_user NEW db = Inl Not_null_violation)
       \<and> (\<forall>e. au_email NEW = Some e \<longrightarrow>
          (\<exists>db'. insert_auth_user NEW db = Inr db'
           \<and> tbl_auth_users db' = tbl_auth_users db @ [NEW]
           \<and> tbl_profiles db'
               = tbl_profiles db
                 @ [\<lparr>p_id = au_id NEW,
                     full_name = (case au_full_name NEW of Some n \<Rightarrow> n | None \<Rightarrow> ''User''),
                     email = e\<rparr>]
           \<and> tbl_user_roles db'
               = tbl_user_roles db
                 @ [\<lparr>r_user_id = au_id NEW,
                     role = (if e = bootstrap_email then Admin else Student)\<rparr>]
           \<and> filter (\<lambda>r. r_user_id r = au_id NEW) (tbl_user_roles db')
               = [\<lparr>r_user_id = au_id NEW,
                   role = (if e = bootstrap_email then Admin else Student)\<rparr>]
           \<and> has_role (tbl_user_roles db') (au_id NEW) Admin = (e = bootstrap_email)
           \<and> has_role (tbl_user_roles db') (au_id NEW) Student = (e \<noteq> bootstrap_email)
           \<and> foreign_keys_hold db'))"
proof (intro conjI allI impI)
  assume "au_email NEW = None"
  then show "insert_auth_user NEW db = Inl Not_null_violation"
    using assms(2) by (simp add: insert_auth_user_def handle_new_user_def insert_profile_def)
next
  fix e
  assume mail: "au_email NEW = Some e"
  let ?p = "\<lparr>p_id = au_id NEW,
             full_name = (case au_full_name NEW of Some n \<Rightarrow> n | None \<Rightarrow> ''User''),
             email = e\<rparr>"
  let ?r = "\<lparr>r_user_id = au_id NEW, role = (if e = bootstrap_email then Admin else Student)\<rparr>"
  let ?db' = "db\<lparr>tbl_auth_users := tbl_auth_users db @ [NEW],
                 tbl_profiles := tbl_profiles db @ [?p],
                 tbl_user_roles := tbl_user_roles db @ [?r]\<rparr>"
  note fresh = no_rows_of_new_identity[OF assms(1,2)]
  have prof: "insert_profile (au_id NEW)
                (case au_full_name NEW of Some n \<Rightarrow> n | None \<Rightarrow> ''User'') (au_email NEW)
                (tbl_profiles db) = Inr (tbl_profiles db @ [?p])"
    using fresh(1) mail by (simp add: insert_profile_def)
  have rl: "insert_user_role (au_id NEW) rl (tbl_user_roles db)
              = Inr (tbl_user_roles db @ [\<lparr>r_user_id = au_id NEW, role = rl\<rparr>])" for rl
    using fresh(2) by (simp add: insert_user_role_def)
  have run: "insert_auth_user NEW db = Inr ?db'"
    using assms(2) mail prof rl by (simp add: insert_auth_user_def handle_new_user_def)
  have only: "filter (\<lambda>r. r_user_id r = au_id NEW) (tbl_user_roles ?db') = [?r]"
    using fresh(3) by simp
  have adm: "has_role (tbl_user_roles ?db') (au_id NEW) Admin = (e = bootstrap_email)"
    using fresh(2)[of Admin] by (simp add: has_role_def)
  have stu: "has_role (tbl_user_roles ?db') (au_id NEW) Student = (e \<noteq> bootstrap_email)"
    using fresh(2)[of Student] by (simp add: has_role_def)
  have fk: "foreign_keys_hold ?db'"
    using assms(1) by (auto simp: foreign_keys_hold_def list_all_iff list_ex_iff)
  from run only adm stu fk
  show "\<exists>db'. insert_auth_user NEW db = Inr db'
           \<and> tbl_auth_users db' = tbl_auth_users db @ [NEW]
           \<and> tbl_profiles db' = tbl_profiles db @ [?p]
           \<and> tbl_user_roles db' = tbl_user_roles db @ [?r]
           \<and> filter (\<lambda>r. r_user_id r = au_id NEW) (tbl_user_roles db') = [?r]
           \<and> has_role (tbl_user_roles db') (au_id NEW) Admin = (e = bootstrap_email)
           \<and> has_role (tbl_user_roles db') (au_id NEW) Student = (e \<noteq> bootstrap_email)
           \<and> foreign_keys_hold db'"
    by (intro exI[of _ ?db']) simp
qed

theorem insert_auth_user_creates_profile_and_role_witness:
  "insert_auth_user ex_new_user ex_db
     = Inr (ex_db\<lparr>tbl_auth_users := tbl_auth_users ex_db @ [ex_new_user],
                  tbl_profiles := tbl_profiles ex_db
                    @ [\<lparr>p_id = ''u-3'', full_name = ''User'', email = ''ann@example.com''\<rparr>],
                  tbl_user_roles := tbl_user_roles ex_db
                    @ [\<lparr>r_user_id = ''u-3'', role = Student\<rparr>]\<rparr>)
   \<and> insert_auth_user
         \<lparr>au_id = ''u-9'', au_email = Some ''admin@brototype.com'', au_full_name = Some ''Root''\<rparr>
         (ex_db\<lparr>tbl_auth_users := [], tbl_profiles := [], tbl_user_roles := []\<rparr>)
     = Inr \<lparr>tbl_auth_users =
              [\<lparr>au_id = ''u-9'', au_email = Some ''admin@brototype.com'',
                au_full_name = Some ''Root''\<rparr>],
            tbl_profiles =
              [\<lparr>p_id = ''u-9'', full_name = ''Root'', email = ''admin@brototype.com''\<rparr>],
            tbl_user_roles = [\<lparr>r_user_id = ''u-9'', role = Admin\<rparr>]\<rparr>"
proof -
  let ?root = "\<lparr>au_id = ''u-9'', au_email = Some ''admin@brototype.com'',
                 au_full_name = Some ''Root''\<rparr>"
  let ?empty = "ex_db\<lparr>tbl_auth_users := [], tbl_profiles := [], tbl_user_roles := []\<rparr>"
  have fk: "foreign_keys_hold ex_db" and fk0: "foreign_keys_hold ?empty"
    by (simp_all add: foreign_keys_hold_def ex_db_def)
  have new: "\<not> list_ex (\<lambda>u. au_id u = au_id ex_new_user) (tbl_auth_users ex_db)"
    and new0: "\<not> list_ex (\<lambda>u. au_id u = au_id ?root) (tbl_auth_users ?empty)"
    by (simp_all add: ex_db_def ex_new_user_def)
  have mail: "au_email ex_new_user = Some ''ann@example.com''"
    and mail0: "au_email ?root = Some ''admin@brototype.com''"
    by (simp_all add: ex_new_user_def)
  from insert_auth_user_creates_profile_and_role[OF fk new] mail
  obtain db1 where 1: "insert_auth_user ex_new_user ex_db = Inr db1"
    and "tbl_auth_users db1 = tbl_auth_users ex_db @ [ex_new_user]"
    and "tbl_profiles db1 = tbl_profiles ex_db
           @ [\<lparr>p_id = au_id ex_new_user,
               full_name = (case au_full_name ex_new_user of Some n \<Rightarrow> n | None \<Rightarrow> ''User''),
               email = ''ann@example.com''\<rparr>]"
    and "tbl_user_roles db1 = tbl_user_roles ex_db
           @ [\<lparr>r_user_id = au_id ex_new_user,
               role = (if ''ann@example.com'' = bootstrap_email then Admin else Student)\<rparr>]"
    by blast
  then have a: "db1 = ex_db\<lparr>tbl_auth_users := tbl_auth_users ex_db @ [ex_new_user],
                  tbl_profiles := tbl_profiles ex_db
                    @ [\<lparr>p_id = ''u-3'', full_name = ''User'', email = ''ann@example.com''\<rparr>],
                  tbl_user_roles := tbl_user_roles ex_db
                    @ [\<lparr>r_user_id = ''u-3'', role = Student\<rparr>]\<rparr>"
    by (cases db1) (simp add: ex_new_user_def ex_db_def)
  from insert_auth_user_creates_profile_and_role[OF fk0 new0] mail0
  obtain db2 where 2: "insert_auth_user ?root ?empty = Inr db2"
    and "tbl_auth_users db2 = tbl_auth_users ?empty @ [?root]"
    and "tbl_profiles db2 = tbl_profiles ?empty
           @ [\<lparr>p_id = au_id ?root,
               full_name = (case au_full_name ?root of Some n \<Rightarrow> n | None \<Rightarrow> ''User''),
               email = ''admin@brototype.com''\<rparr>]"
    and "tbl_user_roles db2 = tbl_user_roles ?empty
           @ [\<lparr>r_user_id = au_id ?root,
               role = (if ''admin@brototype.com'' = bootstrap_email then Admin else Student)\<rparr>]"
    by blast
  then have b: "db2 = \<lparr>tbl_auth_users = [?root],
            tbl_profiles =
              [\<lparr>p_id = ''u-9'', full_name = ''Root'', email = ''admin@brototype.com''\<rparr>],
            tbl_user_roles = [\<lparr>r_user_id = ''u-9'', role = Admin\<rparr>]\<rparr>"
    by (cases db2) simp
  from 1 2 show ?thesis unfolding a b by simp
qed

section \<open>Complaint submission: properties\<close>

lemma uploadFile_failed:
  assumes "s_file st = Some f" and "user = Some u"
    and "case storage_upload be (u_id u @ ''/'' @ decimal now @ ''.'' @ fileExt (f_name f)) f of
           Rejected e \<Rightarrow> True | Fulfilled res \<Rightarrow> error res \<noteq> None"
  shows "uploadFile be now user st =
           (None, st\<lparr>s_uploading := False\<rparr>,
            [Storage_upload (u_id u @ ''/'' @ decimal now @ ''.'' @ fileExt (f_name f)) f,
             Console_error ''File upload error:'', Toast_error ''Failed to upload file''])"
  using assms by (auto simp: uploadFile_def Let_def split: awaited.splits)

text \<open>
  C5. When a file is attached and its upload fails (the request is rejected, or it
  is fulfilled with an error), \<open>handleSubmit\<close> sends no insert of a complaint and leaves
  the list of complaints as it was; when the form is valid, so that the upload was
  attempted, its effects are exactly the upload request, the console line and the
  toast "Failed to upload file".
\<close>

theorem upload_failure_aborts_submission:
  assumes "s_file st = Some f" and "user = Some u"
    and "case storage_upload be (u_id u @ ''/'' @ decimal now @ ''.'' @ fileExt (f_name f)) f of
           Rejected e \<Rightarrow> True | Fulfilled res \<Rightarrow> error res \<noteq> None"
  shows "inserted_complaints (snd (handleSubmit be now user st)) = []
       \<and> s_complaints (fst (handleSubmit be now user st)) = s_complaints st
       \<and> (\<forall>v. complaintSchema_parse (s_title st) (s_category st) (s_description st) = Inr v \<longrightarrow>
             snd (handleSubmit be now user st)
               = [Storage_upload (u_id u @ ''/'' @ decimal now @ ''.'' @ fileExt (f_name f)) f,
                  Console_error ''File upload error:'', Toast_error ''Failed to upload file''])"
proof (cases "complaintSchema_parse (s_title st) (s_category st) (s_description st)")
  case (Inl issues)
  then show ?thesis
    by (simp add: handleSubmit_def inserted_complaints_def List.map_filter_def)
next
  case (Inr v)
  with assms(1) uploadFile_failed[OF assms] show ?thesis
    by (simp add: handleSubmit_def inserted_complaints_def List.map_filter_def)
qed

theorem upload_failure_aborts_submission_witness:
  "inserted_complaints
     (snd (handleSubmit ex_backend_upload_refused 1700000000000 (Some ex_user)
             (ex_form\<lparr>s_file := Some ex_png\<rparr>))) = []
   \<and> snd (handleSubmit ex_backend_upload_refused 1700000000000 (Some ex_user)
            (ex_form\<lparr>s_file := Some ex_png\<rparr>))
       = [Storage_upload ''u-3/1700000000000.png'' ex_png,
          Console_error ''File upload error:'', Toast_error ''Failed to upload file'']"
  using upload_failure_aborts_submission
          [of "ex_form\<lparr>s_file := Some ex_png\<rparr>" ex_png "Some ex_user" ex_user
              ex_backend_upload_refused 1700000000000]
  by (simp add: ex_form_def ex_png_def ex_user_def ex_backend_upload_refused_def ex_backend_def
        complaintSchema_parse_def complaintSchema_issues_def parse_category_def
        js_trim_def js_space_def decimal.simps digit_char_def fileExt_def
        inserted_complaints_def List.map_filter_def)

lemma student_fetchComplaints_uploads_nothing:
  "student_fetchComplaints be user st = (st', es) \<Longrightarrow> uploaded_files es = []"
  by (auto simp: student_fetchComplaints_def uploaded_files_def List.map_filter_def
        split: option.splits awaited.splits if_splits)

lemma student_fetchComplaints_inserts_nothing:
  "student_fetchComplaints be user st = (st', es) \<Longrightarrow> inserted_complaints es = []"
  by (auto simp: student_fetchComplaints_def inserted_complaints_def List.map_filter_def
        split: option.splits awaited.splits if_splits)

lemma uploadFile_sends_selected:
  assumes "s_file st = Some g" and "user = Some u"
  shows "uploaded_files (snd (snd (uploadFile be now user st))) = [g]"
  using assms
  by (auto simp: uploadFile_def uploaded_files_def List.map_filter_def Let_def
        split: awaited.splits)

lemma uploadFile_uploads_selected:
  "set (uploaded_files (snd (snd (uploadFile be now user st)))) \<subseteq> set_option (s_file st)"
  by (auto simp: uploadFile_def uploaded_files_def List.map_filter_def Let_def
        split: option.splits awaited.splits if_splits)

lemma handleSubmit_valid:
  assumes "complaintSchema_parse (s_title st) (s_category st) (s_description st) = Inr v"
    and "(if s_file st \<noteq> None then uploadFile be now user st else (None, st, []))
           = (fileUrl, st1, uploaded)"
  shows "handleSubmit be now user st =
           (if s_file st \<noteq> None \<and> (fileUrl = None \<or> fileUrl = Some '''') then
              (st1\<lparr>s_submitting := False\<rparr>, uploaded)
            else
              (case user of
                 None \<Rightarrow>
                   (st1\<lparr>s_submitting := False\<rparr>,
                    uploaded @ [Toast_error ''Failed to submit complaint''])
               | Some u \<Rightarrow>
                   (let row = \<lparr>ins_user_id = u_id u, ins_title = v_title v,
                               ins_category = v_category v, ins_description = v_description v,
                               ins_file_url = fileUrl\<rparr>;
                        failed = (st1\<lparr>s_submitting := False\<rparr>,
                                  uploaded @ [Insert_complaint row,
                                              Toast_error ''Failed to submit complaint''])
                    in case complaints_insert be row of
                         Rejected e \<Rightarrow> failed
                       | Fulfilled res \<Rightarrow>
                           if error res \<noteq> None then failed
                           else
                             (case student_fetchComplaints be user
                                     (st1\<lparr>s_title := '''', s_category := '''',
                                          s_description := '''', s_file := None,
                                          s_open := False\<rparr>) of
                                (st2, fetched) \<Rightarrow>
                                  (st2\<lparr>s_submitting := False\<rparr>,
                                   uploaded @ [Insert_complaint row,
                                               Toast_success ''Complaint submitted successfully!'']
                                     @ fetched)))))"
  unfolding handleSubmit_def assms(1) sum.case assms(2) prod.case ..

lemma handleSubmit_effects:
  assumes "complaintSchema_parse (s_title st) (s_category st) (s_description st) = Inr v"
    and "(if s_file st \<noteq> None then uploadFile be now user st else (None, st, []))
           = (fileUrl, st1, uploaded)"
  shows "\<exists>es. snd (handleSubmit be now user st) = uploaded @ es \<and> uploaded_files es = []
           \<and> (\<forall>u. \<not> (s_file st \<noteq> None \<and> (fileUrl = None \<or> fileUrl = Some ''''))
                    \<and> user = Some u \<longrightarrow>
                  inserted_complaints es
                    = [\<lparr>ins_user_id = u_id u, ins_title = v_title v,
                        ins_category = v_category v, ins_description = v_description v,
                        ins_file_url = fileUrl\<rparr>])"
proof (cases "s_file st \<noteq> None \<and> (fileUrl = None \<or> fileUrl = Some '''')")
  case True
  have "snd (handleSubmit be now user st) = uploaded @ []"
    by (simp only: handleSubmit_valid[OF assms] if_P[OF True] snd_conv append_Nil2)
  then show ?thesis
    using True by (intro exI[of _ "[]"]) (simp add: uploaded_files_def List.map_filter_def)
next
  case proceed: False
  show ?thesis
  proof (cases user)
    case None
    have "snd (handleSubmit be now user st)
            = uploaded @ [Toast_error ''Failed to submit complaint'']"
      by (simp only: handleSubmit_valid[OF assms] if_not_P[OF proceed]) (simp add: None)
    then show ?thesis
      using None
      by (intro exI[of _ "[Toast_error ''Failed to submit complaint'']"])
         (simp add: uploaded_files_def List.map_filter_def)
  next
    case (Some u)
    let ?row = "\<lparr>ins_user_id = u_id u, ins_title = v_title v, ins_category = v_category v,
                 ins_description = v_description v, ins_file_url = fileUrl\<rparr>"
    let ?failed = "[Insert_complaint ?row, Toast_error ''Failed to submit complaint'']"
    obtain st2 fetched
      where fetch: "student_fetchComplaints be (Some u)
                      (st1\<lparr>s_title := '''', s_category := '''', s_description := '''',
                          s_file := None, s_open := False\<rparr>) = (st2, fetched)"
      by (cases "student_fetchComplaints be (Some u)
                   (st1\<lparr>s_title := '''', s_category := '''', s_description := '''',
                       s_file := None, s_open := False\<rparr>)")
    have nofetch: "uploaded_files fetched = []"
      using fetch by (rule student_fetchComplaints_uploads_nothing)
    let ?done = "[Insert_complaint ?row, Toast_success ''Complaint submitted successfully!'']
                   @ fetched"
    have eq: "handleSubmit be now user st =
                (let row = ?row;
                     failed = (st1\<lparr>s_submitting := False\<rparr>,
                               uploaded @ [Insert_complaint row,
                                           Toast_error ''Failed to submit complaint''])
                 in case complaints_insert be row of
                      Rejected e \<Rightarrow> failed
                    | Fulfilled res \<Rightarrow>
                        if error res \<noteq> None then failed
                        else (st2\<lparr>s_submitting := False\<rparr>,
                              uploaded @ [Insert_complaint row,
                                          Toast_success ''Complaint submitted successfully!'']
                                @ fetched))"
      by (simp only: handleSubmit_valid[OF assms] if_not_P[OF proceed])
         (simp only: Some option.case fetch prod.case)
    have "snd (handleSubmit be now user st) = uploaded @ ?failed
          \<or> snd (handleSubmit be now user st) = uploaded @ ?done"
      unfolding eq by (cases "complaints_insert be ?row") (simp_all add: Let_def)
    moreover have "uploaded_files ?failed = []" and "inserted_complaints ?failed = [?row]"
      by (simp_all add: uploaded_files_def inserted_complaints_def List.map_filter_def)
    moreover have "uploaded_files ?done = []"
      using nofetch by (simp add: uploaded_files_def List.map_filter_def)
    moreover have "inserted_complaints ?done = [?row]"
      using student_fetchComplaints_inserts_nothing[OF fetch]
      by (simp add: inserted_complaints_def List.map_filter_def)
    ultimately
    have "\<exists>es. snd (handleSubmit be now user st) = uploaded @ es \<and> uploaded_files es = []
            \<and> inserted_complaints es = [?row]"
      by blast
    then show ?thesis using Some by auto
  qed
qed

lemma handleSubmit_uploads_selected:
  "set (uploaded_files (snd (handleSubmit be now user st))) \<subseteq> set_option (s_file st)"
proof (cases "complaintSchema_parse (s_title st) (s_category st) (s_description st)")
  case (Inl issues)
  then show ?thesis
    by (simp add: handleSubmit_def uploaded_files_def List.map_filter_def)
next
  case (Inr v)
  obtain fileUrl st1 uploaded
    where up: "(if s_file st \<noteq> None then uploadFile be now user st else (None, st, []))
                 = (fileUrl, st1, uploaded)"
    by (cases "if s_file st \<noteq> None then uploadFile be now user st else (None, st, [])") auto
  have sub: "set (uploaded_files uploaded) \<subseteq> set_option (s_file st)"
  proof (cases "s_file st")
    case None
    with up show ?thesis by (simp add: uploaded_files_def List.map_filter_def)
  next
    case (Some f)
    with up have "uploaded = snd (snd (uploadFile be now user st))" by simp
    then show ?thesis using uploadFile_uploads_selected by simp
  qed
  from handleSubmit_effects[OF Inr up]
  obtain es where "snd (handleSubmit be now user st) = uploaded @ es" and "uploaded_files es = []"
    by blast
  then have "uploaded_files (snd (handleSubmit be now user st)) = uploaded_files uploaded"
    by (simp add: uploaded_files_def List.map_filter_def)
  with sub show ?thesis by simp
qed

lemma handleSubmit_inserts_without_file:
  assumes "complaintSchema_parse (s_title st) (s_category st) (s_description st) = Inr v"
    and "s_file st = None" and "user = Some u"
  shows "inserted_complaints (snd (handleSubmit be now user st))
           = [\<lparr>ins_user_id = u_id u, ins_title = v_title v, ins_category = v_category v,
               ins_description = v_description v, ins_file_url = None\<rparr>]"
proof -
  have up: "(if s_file st \<noteq> None then uploadFile be now user st else (None, st, []))
              = (None, st, [])"
    using assms(2) by simp
  from handleSubmit_effects[OF assms(1) up] assms(2,3)
  obtain es where "snd (handleSubmit be now user st) = [] @ es"
    and "inserted_complaints es
           = [\<lparr>ins_user_id = u_id u, ins_title = v_title v, ins_category = v_category v,
               ins_description = v_description v, ins_file_url = None\<rparr>]"
    by auto
  then show ?thesis by simp
qed

lemma handleSubmit_sends_selected:
  assumes "complaintSchema_parse (s_title st) (s_category st) (s_description st) = Inr v"
    and "s_file st = Some g" and "user = Some u"
  shows "uploaded_files (snd (handleSubmit be now user st)) = [g]"
proof -
  obtain fileUrl st1 uploaded where run: "uploadFile be now user st = (fileUrl, st1, uploaded)"
    by (cases "uploadFile be now user st")
  then have up: "(if s_file st \<noteq> None then uploadFile be now user st else (None, st, []))
                   = (fileUrl, st1, uploaded)"
    using assms(2) by simp
  have sent: "uploaded_files uploaded = [g]"
    using uploadFile_sends_selected[OF assms(2,3), of be now] run by simp
  from handleSubmit_effects[OF assms(1) up]
  obtain es where "snd (handleSubmit be now user st) = uploaded @ es" and "uploaded_files es = []"
    by blast
  then have "uploaded_files (snd (handleSubmit be now user st)) = uploaded_files uploaded"
    by (simp add: uploaded_files_def List.map_filter_def)
  with sent show ?thesis by simp
qed

text \<open>
  C4, as the code has it. A file of more than \<open>10 * 1024 * 1024\<close> bytes is refused
  by \<open>handleFileChange\<close> when it is selected: an error toast, no request, and the form
  state (with any file accepted earlier) unchanged. \<open>handleSubmit\<close> afterwards runs as
  if that file had never been selected: it does not upload it (unless the form held
  that very file already), and the submission is not blocked, for a valid form without
  a file, submitted by a signed-in user, still sends the insert of the complaint,
  without attachment. No MIME type is validated
  before the network operation: \<open>handleFileChange\<close> takes every file within the size
  limit into the form, whatever its type, and \<open>handleSubmit\<close> of a valid form by a
  signed-in user then sends that file in an upload request.
\<close>

theorem oversized_file_rejected_at_selection:
  assumes "f_size f > 10 * 1024 * 1024"
  shows "handleFileChange (Some f) st = (st, [Toast_error ''File size must be less than 10MB''])
       \<and> \<not> list_ex is_network (snd (handleFileChange (Some f) st))
       \<and> handleSubmit be now user (fst (handleFileChange (Some f) st))
           = handleSubmit be now user st
       \<and> (s_file st \<noteq> Some f \<longrightarrow>
             f \<notin> set (uploaded_files
                        (snd (handleSubmit be now user (fst (handleFileChange (Some f) st))))))
       \<and> (\<forall>u v. s_file st = None \<and> user = Some u
                 \<and> complaintSchema_parse (s_title st) (s_category st) (s_description st) = Inr v \<longrightarrow>
             inserted_complaints
               (snd (handleSubmit be now user (fst (handleFileChange (Some f) st))))
               = [\<lparr>ins_user_id = u_id u, ins_title = v_title v, ins_category = v_category v,
                   ins_description = v_description v, ins_file_url = None\<rparr>])
       \<and> (\<forall>g. f_size g \<le> 10 * 1024 * 1024 \<longrightarrow>
             handleFileChange (Some g) st = (st\<lparr>s_file := Some g\<rparr>, [])
             \<and> (\<forall>u v. user = Some u
                      \<and> complaintSchema_parse (s_title st) (s_category st) (s_description st)
                          = Inr v \<longrightarrow>
                   uploaded_files
                     (snd (handleSubmit be now user (fst (handleFileChange (Some g) st))))
                     = [g]))"
proof -
  have rej: "handleFileChange (Some f) st = (st, [Toast_error ''File size must be less than 10MB''])"
    using assms by (simp add: handleFileChange_def)
  have up: "s_file st \<noteq> Some f \<longrightarrow> f \<notin> set (uploaded_files (snd (handleSubmit be now user st)))"
    using handleSubmit_uploads_selected[of be now user st] by (cases "s_file st") auto
  have ins: "\<forall>u v. s_file st = None \<and> user = Some u
                  \<and> complaintSchema_parse (s_title st) (s_category st) (s_description st) = Inr v \<longrightarrow>
               inserted_complaints (snd (handleSubmit be now user st))
                 = [\<lparr>ins_user_id = u_id u, ins_title = v_title v, ins_category = v_category v,
                     ins_description = v_description v, ins_file_url = None\<rparr>]"
    using handleSubmit_inserts_without_file[of st _ user _ be now] by blast
  have acc: "handleFileChange (Some g) st = (st\<lparr>s_file := Some g\<rparr>, [])"
    if "f_size g \<le> 10 * 1024 * 1024" for g
    using that by (simp add: handleFileChange_def)
  have sent: "uploaded_files (snd (handleSubmit be now user (st\<lparr>s_file := Some g\<rparr>))) = [g]"
    if "user = Some u"
      and "complaintSchema_parse (s_title st) (s_category st) (s_description st) = Inr v"
    for g u v
    using that handleSubmit_sends_selected[of "st\<lparr>s_file := Some g\<rparr>" v g user u be now]
    by simp
  from rej up ins acc sent show ?thesis by simp
qed

theorem oversized_file_rejected_at_selection_witness:
  "handleFileChange (Some ex_15MB) ex_form
     = (ex_form, [Toast_error ''File size must be less than 10MB''])
   \<and> ex_15MB \<notin> set (uploaded_files
                       (snd (handleSubmit ex_backend 1700000000000 (Some ex_user)
                               (fst (handleFileChange (Some ex_15MB) ex_form)))))
   \<and> inserted_complaints
        (snd (handleSubmit ex_backend 1700000000000 (Some ex_user)
                (fst (handleFileChange (Some ex_15MB) ex_form))))
       = [\<lparr>ins_user_id = ''u-3'', ins_title = ''Wifi down'', ins_category = Technical,
           ins_description = ''The lab wifi has been down since Monday morning'',
           ins_file_url = None\<rparr>]
   \<and> handleFileChange (Some ex_zip) ex_form = (ex_form\<lparr>s_file := Some ex_zip\<rparr>, [])
   \<and> uploaded_files
        (snd (handleSubmit ex_backend 1700000000000 (Some ex_user)
                (fst (handleFileChange (Some ex_zip) ex_form))))
       = [ex_zip]"
proof -
  let ?v = "\<lparr>v_title = ''Wifi down'', v_category = Technical,
             v_description = ''The lab wifi has been down since Monday morning''\<rparr>"
  have big: "f_size ex_15MB > 10 * 1024 * 1024"
    by (simp add: ex_15MB_def)
  have small: "f_size ex_zip \<le> 10 * 1024 * 1024"
    by (simp add: ex_zip_def)
  have none: "s_file ex_form = None"
    by (simp add: ex_form_def)
  have valid: "complaintSchema_parse (s_title ex_form) (s_category ex_form) (s_description ex_form)
                 = Inr ?v"
    by (simp add: ex_form_def complaintSchema_parse_def complaintSchema_issues_def
          parse_category_def js_trim_def js_space_def)
  note t = oversized_file_rejected_at_selection
             [OF big, of ex_form ex_backend 1700000000000 "Some ex_user"]
  from t have a: "handleFileChange (Some ex_15MB) ex_form
                    = (ex_form, [Toast_error ''File size must be less than 10MB''])"
    by blast
  from none have other: "s_file ex_form \<noteq> Some ex_15MB"
    by simp
  from t other have b: "ex_15MB \<notin> set (uploaded_files
                       (snd (handleSubmit ex_backend 1700000000000 (Some ex_user)
                               (fst (handleFileChange (Some ex_15MB) ex_form)))))"
    by blast
  from t none valid
  have c: "inserted_complaints
             (snd (handleSubmit ex_backend 1700000000000 (Some ex_user)
                     (fst (handleFileChange (Some ex_15MB) ex_form))))
             = [\<lparr>ins_user_id = u_id ex_user, ins_title = v_title ?v, ins_category = v_category ?v,
                 ins_description = v_description ?v, ins_file_url = None\<rparr>]"
    by blast
  from t small have d: "handleFileChange (Some ex_zip) ex_form = (ex_form\<lparr>s_file := Some ex_zip\<rparr>, [])"
    by blast
  from t small valid
  have e: "uploaded_files
             (snd (handleSubmit ex_backend 1700000000000 (Some ex_user)
                     (fst (handleFileChange (Some ex_zip) ex_form))))
             = [ex_zip]"
    by blast
  from a b c d e show ?thesis by (simp add: ex_user_def)
qed

text \<open>
  C4 as stated fails twice. A small archive, whose type is not among the types the
  bucket is created with, passes \<open>handleFileChange\<close>, and \<open>handleSubmit\<close> sends it in an
  upload request, a network operation, before anything has looked at its type. And
  after a picture of 15MB has been refused at selection, submitting the form still
  inserts the complaint, without attachment.
\<close>

theorem client_file_validation_counterexample:
  "f_type ex_zip \<notin> set allowed_mime_types
   \<and> f_size ex_zip \<le> file_size_limit
   \<and> handleFileChange (Some ex_zip) ex_form = (ex_form\<lparr>s_file := Some ex_zip\<rparr>, [])
   \<and> snd (handleSubmit ex_backend_upload_refused 1700000000000 (Some ex_user)
            (fst (handleFileChange (Some ex_zip) ex_form)))
       = [Storage_upload ''u-3/1700000000000.zip'' ex_zip,
          Console_error ''File upload error:'', Toast_error ''Failed to upload file'']
   \<and> is_network (Storage_upload ''u-3/1700000000000.zip'' ex_zip)
   \<and> f_size ex_15MB > 10 * 1024 * 1024
   \<and> inserted_complaints
        (snd (handleSubmit ex_backend 1700000000000 (Some ex_user)
                (fst (handleFileChange (Some ex_15MB) ex_form))))
       = [\<lparr>ins_user_id = ''u-3'', ins_title = ''Wifi down'', ins_category = Technical,
           ins_description = ''The lab wifi has been down since Monday morning'',
           ins_file_url = None\<rparr>]"
  by (simp add: handleFileChange_def handleSubmit_def uploadFile_def student_fetchComplaints_def
        ex_form_def ex_zip_def ex_15MB_def ex_user_def ex_backend_upload_refused_def
        ex_backend_def allowed_mime_types_def file_size_limit_def
        complaintSchema_parse_def complaintSchema_issues_def parse_category_def
        js_trim_def js_space_def decimal.simps digit_char_def fileExt_def
        inserted_complaints_def List.map_filter_def)

section \<open>The admin workspace: properties\<close>

lemma filterComplaints_filter:
  "filterComplaints cs s c =
     filter (\<lambda>x. (s = ''all'' \<or> status_text (status x) = s)
                \<and> (c = ''all'' \<or> category_text (category x) = c)) cs"
  by (simp add: filterComplaints_def Let_def)

text \<open>
  C8. \<open>filterComplaints\<close> is a function of the list and the two filter values
  alone: it keeps the complaints that pass the status predicate and the category
  predicate (each true for every complaint under the wild card "all"). Filtering twice
  with the same values is filtering once; the status predicate applied before the
  category predicate gives what the reverse order gives, which is the filter with
  both; any two filterings commute; and with both wild cards the list comes back
  unchanged.
\<close>

theorem filterComplaints_algebra:
  "filterComplaints cs s c =
     filter (\<lambda>x. (s = ''all'' \<or> status_text (status x) = s)
                \<and> (c = ''all'' \<or> category_text (category x) = c)) cs
   \<and> filterComplaints (filterComplaints cs s c) s c = filterComplaints cs s c
   \<and> filterComplaints (filterComplaints cs s ''all'') ''all'' c
       = filterComplaints (filterComplaints cs ''all'' c) s ''all''
   \<and> filterComplaints (filterComplaints cs s ''all'') ''all'' c = filterComplaints cs s c
   \<and> filterComplaints (filterComplaints cs s c) s' c'
       = filterComplaints (filterComplaints cs s' c') s c
   \<and> filterComplaints cs ''all'' ''all'' = cs"
proof -
  have 1: "filterComplaints (filterComplaints cs s c) s c = filterComplaints cs s c"
    by (simp add: filterComplaints_filter)
  have 2: "filterComplaints (filterComplaints cs s ''all'') ''all'' c = filterComplaints cs s c"
    by (simp add: filterComplaints_filter)
  have 3: "filterComplaints (filterComplaints cs ''all'' c) s ''all'' = filterComplaints cs s c"
    by (simp add: filterComplaints_filter conj_commute)
  have 4: "filterComplaints (filterComplaints cs s c) s' c'
             = filterComplaints (filterComplaints cs s' c') s c"
    unfolding filterComplaints_filter filter_filter by (rule filter_cong) auto
  have 5: "filterComplaints cs ''all'' ''all'' = cs"
    by (simp add: filterComplaints_filter)
  from 1 2 3 4 5 show ?thesis using filterComplaints_filter by metis
qed

theorem filterComplaints_algebra_witness:
  "filterComplaints
     [merge_profile None ex_complaint,
      merge_profile None (ex_complaint\<lparr>id := ''c-2'', status := Resolved\<rparr>),
      merge_profile None (ex_complaint\<lparr>id := ''c-3'', category := Facility\<rparr>)]
     ''Pending'' ''Technical''
     = [merge_profile None ex_complaint]
   \<and> filterComplaints
       (filterComplaints
          [merge_profile None ex_complaint,
           merge_profile None (ex_complaint\<lparr>id := ''c-2'', status := Resolved\<rparr>),
           merge_profile None (ex_complaint\<lparr>id := ''c-3'', category := Facility\<rparr>)]
          ''Pending'' ''all'')
       ''all'' ''Technical''
     = [merge_profile None ex_complaint]
   \<and> filterComplaints
       (filterComplaints
          [merge_profile None ex_complaint,
           merge_profile None (ex_complaint\<lparr>id := ''c-2'', status := Resolved\<rparr>),
           merge_profile None (ex_complaint\<lparr>id := ''c-3'', category := Facility\<rparr>)]
          ''all'' ''Technical'')
       ''Pending'' ''all''
     = [merge_profile None ex_complaint]"
proof -
  let ?cs = "[merge_profile None ex_complaint,
              merge_profile None (ex_complaint\<lparr>id := ''c-2'', status := Resolved\<rparr>),
              merge_profile None (ex_complaint\<lparr>id := ''c-3'', category := Facility\<rparr>)]"
  have both: "filterComplaints ?cs ''Pending'' ''Technical'' = [merge_profile None ex_complaint]"
    by (simp add: filterComplaints_def merge_profile_def ex_complaint_def
          complaints_row.defs complaint_with_profile.defs)
  note alg = filterComplaints_algebra[of ?cs "''Pending''" "''Technical''" "''all''" "''all''"]
  from alg have status_first:
    "filterComplaints (filterComplaints ?cs ''Pending'' ''all'') ''all'' ''Technical''
       = filterComplaints ?cs ''Pending'' ''Technical''"
    by (rule conjunct1[OF conjunct2[OF conjunct2[OF conjunct2]]])
  from alg have swap:
    "filterComplaints (filterComplaints ?cs ''Pending'' ''all'') ''all'' ''Technical''
       = filterComplaints (filterComplaints ?cs ''all'' ''Technical'') ''Pending'' ''all''"
    by (rule conjunct1[OF conjunct2[OF conjunct2]])
  from swap status_first have category_first:
    "filterComplaints (filterComplaints ?cs ''all'' ''Technical'') ''Pending'' ''all''
       = filterComplaints ?cs ''Pending'' ''Technical''"
    by (rule trans[OF sym])
  show ?thesis
    unfolding status_first category_first both by simp
qed

lemma merge_profile_row:
  "complaints_row.truncate (merge_profile profilesData complaint) = complaint"
  "user_id (merge_profile profilesData complaint) = user_id complaint"
  "profiles (merge_profile profilesData complaint)
     = (case profilesData of
          None \<Rightarrow> None
        | Some ps \<Rightarrow> find (\<lambda>p. p_id p = user_id complaint) ps)"
  by (simp_all add: merge_profile_def complaints_row.defs complaint_with_profile.defs)

lemma find_first_of_distinct:
  assumes "distinct (map f xs)" and "x \<in> set xs" and "f x = k"
  shows "find (\<lambda>y. f y = k) xs = Some x"
  using assms by (induction xs) (auto simp: image_iff)

text \<open>
  C9. When both reads succeed, the listing holds every fetched complaint, in the
  order fetched, each joined with what \<open>find\<close> gives for its owner among the fetched
  profiles, and no toast is raised. A complaint whose owner has no fetched profile
  (or when the profile read returned no data) carries a null profile and is shown with
  "Unknown" and "N/A". A complaint whose owner has a fetched profile carries a profile
  of that owner, and that very profile when profile ids are distinct.
\<close>

theorem fetchComplaints_merges_profiles:
  assumes "complaints_select_all be = Fulfilled \<lparr>data = Some complaintsData, error = None\<rparr>"
    and "profiles_select_in be (js_set_list [] (map user_id complaintsData))
           = Fulfilled \<lparr>data = profilesData, error = None\<rparr>"
  shows "map complaints_row.truncate (a_complaints (fst (fetchComplaints be st))) = complaintsData
       \<and> snd (fetchComplaints be st)
           = [Select_complaints_all,
              Select_profiles_in (js_set_list [] (map user_id complaintsData))]
       \<and> (\<forall>m \<in> set (a_complaints (fst (fetchComplaints be st))).
             (user_id m \<notin> p_id ` set (case profilesData of None \<Rightarrow> [] | Some ps \<Rightarrow> ps) \<longrightarrow>
                profiles m = None \<and> shown_full_name m = ''Unknown'' \<and> shown_email m = ''N/A'')
           \<and> (\<forall>p \<in> set (case profilesData of None \<Rightarrow> [] | Some ps \<Rightarrow> ps).
                 p_id p = user_id m \<longrightarrow>
                   (\<exists>q \<in> set (case profilesData of None \<Rightarrow> [] | Some ps \<Rightarrow> ps).
                      profiles m = Some q \<and> p_id q = user_id m)
                   \<and> (distinct (map p_id (case profilesData of None \<Rightarrow> [] | Some ps \<Rightarrow> ps)) \<longrightarrow>
                        profiles m = Some p)))"
proof -
  let ?fetched = "case profilesData of None \<Rightarrow> [] | Some ps \<Rightarrow> ps"
  have run: "fetchComplaints be st
               = (st\<lparr>a_complaints := map (merge_profile profilesData) complaintsData,
                     a_loading := False\<rparr>,
                  [Select_complaints_all,
                   Select_profiles_in (js_set_list [] (map user_id complaintsData))])"
    using assms by (simp add: fetchComplaints_def Let_def)
  have rows: "map complaints_row.truncate (map (merge_profile profilesData) complaintsData)
                = complaintsData"
    by (simp add: merge_profile_row(1) comp_def)
  have each: "(user_id (merge_profile profilesData c) \<notin> p_id ` set ?fetched \<longrightarrow>
                 profiles (merge_profile profilesData c) = None
                 \<and> shown_full_name (merge_profile profilesData c) = ''Unknown''
                 \<and> shown_email (merge_profile profilesData c) = ''N/A'')
            \<and> (\<forall>p \<in> set ?fetched. p_id p = user_id (merge_profile profilesData c) \<longrightarrow>
                   (\<exists>q \<in> set ?fetched. profiles (merge_profile profilesData c) = Some q
                        \<and> p_id q = user_id (merge_profile profilesData c))
                   \<and> (distinct (map p_id ?fetched) \<longrightarrow>
                        profiles (merge_profile profilesData c) = Some p))" for c
  proof (cases profilesData)
    case None
    then show ?thesis
      by (simp add: merge_profile_row shown_full_name_def shown_email_def)
  next
    case (Some ps)
    have missing: "user_id c \<notin> p_id ` set ps \<Longrightarrow> find (\<lambda>p. p_id p = user_id c) ps = None"
      by (force simp: find_None_iff image_iff)
    have found: "\<exists>q \<in> set ps. find (\<lambda>p. p_id p = user_id c) ps = Some q \<and> p_id q = user_id c"
      if "p \<in> set ps" and "p_id p = user_id c" for p
    proof (cases "find (\<lambda>p. p_id p = user_id c) ps")
      case None
      with that show ?thesis by (auto simp: find_None_iff)
    next
      case (Some q)
      then show ?thesis by (auto simp: find_Some_iff)
    qed
    have same: "find (\<lambda>p. p_id p = user_id c) ps = Some p"
      if "p \<in> set ps" and "p_id p = user_id c" and "distinct (map p_id ps)" for p
      using that by (simp add: find_first_of_distinct)
    show ?thesis
      using Some missing found same
      by (simp add: merge_profile_row shown_full_name_def shown_email_def)
  qed
  show ?thesis
    unfolding run fst_conv snd_conv using rows each by auto
qed

theorem fetchComplaints_merges_profiles_witness:
  "map shown_full_name (a_complaints (fst (fetchComplaints ex_admin_backend ex_admin_state)))
     = [''Ann'', ''Unknown'']
   \<and> map shown_email (a_complaints (fst (fetchComplaints ex_admin_backend ex_admin_state)))
     = [''ann@example.com'', ''N/A'']
   \<and> map complaints_row.truncate
         (a_complaints (fst (fetchComplaints ex_admin_backend ex_admin_state)))
     = [ex_complaint, ex_complaint\<lparr>id := ''c-2'', user_id := ''u-4''\<rparr>]
   \<and> map profiles (a_complaints (fst (fetchComplaints ex_admin_backend ex_admin_state)))
     = [Some ex_profile, None]"
proof -
  let ?cs = "[ex_complaint, ex_complaint\<lparr>id := ''c-2'', user_id := ''u-4''\<rparr>]"
  let ?listing = "a_complaints (fst (fetchComplaints ex_admin_backend ex_admin_state))"
  have c: "complaints_select_all ex_admin_backend = Fulfilled \<lparr>data = Some ?cs, error = None\<rparr>"
    by (simp add: ex_admin_backend_def)
  have p: "profiles_select_in ex_admin_backend (js_set_list [] (map user_id ?cs))
             = Fulfilled \<lparr>data = Some [ex_profile], error = None\<rparr>"
    by (simp add: ex_admin_backend_def)
  note t = fetchComplaints_merges_profiles[OF c p, of ex_admin_state]
  from t have rows: "map complaints_row.truncate ?listing = ?cs"
    by (rule conjunct1)
  then obtain m1 m2 where l: "?listing = [m1, m2]"
    and r1: "complaints_row.truncate m1 = ex_complaint"
    and r2: "complaints_row.truncate m2 = ex_complaint\<lparr>id := ''c-2'', user_id := ''u-4''\<rparr>"
    by (auto simp: map_eq_Cons_conv)
  have u1: "user_id m1 = ''u-3''"
    using arg_cong[OF r1, of user_id] by (simp add: complaints_row.defs ex_complaint_def)
  have u2: "user_id m2 = ''u-4''"
    using arg_cong[OF r2, of user_id] by (simp add: complaints_row.defs ex_complaint_def)
  from t l have each:
    "\<forall>m \<in> {m1, m2}.
       (user_id m \<notin> p_id ` {ex_profile} \<longrightarrow>
          profiles m = None \<and> shown_full_name m = ''Unknown'' \<and> shown_email m = ''N/A'')
       \<and> (p_id ex_profile = user_id m \<longrightarrow> profiles m = Some ex_profile)"
    by simp
  from each u1 have a1: "profiles m1 = Some ex_profile"
    by (simp add: ex_profile_def)
  from each u2 have a2: "profiles m2 = None \<and> shown_full_name m2 = ''Unknown'' \<and> shown_email m2 = ''N/A''"
    by (simp add: ex_profile_def)
  from a1 have s1: "shown_full_name m1 = ''Ann'' \<and> shown_email m1 = ''ann@example.com''"
    by (simp add: shown_full_name_def shown_email_def ex_profile_def)
  from rows a1 a2 s1 show ?thesis
    unfolding l by simp
qed

lemma update_complaint_admin:
  assumes "has_role user_roles auth_uid Admin"
  shows "update_complaint user_roles auth_uid now u cid complaints
           = Inr (map (\<lambda>c. if id c = cid
                            then c\<lparr>status := upd_status u, admin_remarks := upd_admin_remarks u,
                                   updated_at := now\<rparr>
                            else c) complaints)"
  using assms
  by (induction complaints)
     (simp_all add: update_row_def rls_update_def admins_can_update_all_def
        update_updated_at_column_def)

lemma fetchComplaints_sends_no_update:
  "sent_updates (snd (fetchComplaints be st)) = []"
  by (simp add: fetchComplaints_def sent_updates_def List.map_filter_def Let_def
        split: awaited.splits option.splits)

text \<open>
  C6. When the dialog holds a complaint, \<open>handleUpdateComplaint\<close> sends exactly one
  update, for that complaint's id, carrying the chosen status and the remarks, with
  the empty string replaced by null. Issued by an identity with the admin role, that
  update sets the chosen status and these remarks on every row with that id, whatever
  status the row had before, and the command never fails on a policy.
\<close>

theorem admin_update_any_status:
  assumes "has_role user_roles auth_uid Admin" and "a_selectedComplaint st = Some sel"
  shows "\<exists>u. sent_updates (snd (handleUpdateComplaint be st)) = [(id sel, u)]
           \<and> upd_status u = a_newStatus st
           \<and> upd_admin_remarks u
               = (if a_adminRemarks st = '''' then None else Some (a_adminRemarks st))
           \<and> upd_admin_remarks u \<noteq> Some ''''
           \<and> update_complaint user_roles auth_uid now u (id sel) complaints
               = Inr (map (\<lambda>c. if id c = id sel
                                then c\<lparr>status := a_newStatus st,
                                       admin_remarks := upd_admin_remarks u,
                                       updated_at := now\<rparr>
                                else c) complaints)"
proof -
  let ?u = "\<lparr>upd_status = a_newStatus st,
             upd_admin_remarks =
               (if a_adminRemarks st = '''' then None else Some (a_adminRemarks st))\<rparr>"
  have sent: "sent_updates (snd (handleUpdateComplaint be st)) = [(id sel, ?u)]"
  proof (cases "complaints_update be (id sel) ?u")
    case (Rejected e)
    with assms(2) show ?thesis
      by (simp add: handleUpdateComplaint_def Let_def sent_updates_def List.map_filter_def)
  next
    case (Fulfilled res)
    show ?thesis
    proof (cases "error res = None")
      case False
      with Fulfilled assms(2) show ?thesis
        by (simp add: handleUpdateComplaint_def Let_def sent_updates_def List.map_filter_def)
    next
      case True
      obtain st' fetched
        where f: "fetchComplaints be (st\<lparr>a_selectedComplaint := None, a_newStatus := Pending,
                                         a_adminRemarks := ''''\<rparr>) = (st', fetched)"
        by (cases "fetchComplaints be (st\<lparr>a_selectedComplaint := None, a_newStatus := Pending,
                                         a_adminRemarks := ''''\<rparr>)")
      have "sent_updates fetched = []"
        using fetchComplaints_sends_no_update
                [of be "st\<lparr>a_selectedComplaint := None, a_newStatus := Pending,
                           a_adminRemarks := ''''\<rparr>"] f
        by simp
      then have "sent_updates ([Update_complaint (id sel) ?u,
                                Toast_success ''Complaint updated successfully!''] @ fetched)
                   = [(id sel, ?u)]"
        by (simp add: sent_updates_def List.map_filter_def)
      with True Fulfilled assms(2) f show ?thesis
        by (simp add: handleUpdateComplaint_def Let_def)
    qed
  qed
  have upd: "update_complaint user_roles auth_uid now ?u (id sel) complaints
               = Inr (map (\<lambda>c. if id c = id sel
                                then c\<lparr>status := a_newStatus st,
                                       admin_remarks := upd_admin_remarks ?u,
                                       updated_at := now\<rparr>
                                else c) complaints)"
    using update_complaint_admin[OF assms(1), of now ?u "id sel" complaints] by simp
  have "upd_admin_remarks ?u \<noteq> Some ''''" by simp
  with sent upd show ?thesis
    by (intro exI[of _ ?u]) simp
qed

theorem admin_update_any_status_witness:
  "sent_updates (snd (handleUpdateComplaint ex_admin_backend ex_admin_state))
     = [(''c-1'', \<lparr>upd_status = Pending, upd_admin_remarks = None\<rparr>)]
   \<and> update_complaint ex_roles ''u-1'' 99 \<lparr>upd_status = Pending, upd_admin_remarks = None\<rparr>
         ''c-1'' [ex_complaint\<lparr>status := Resolved, admin_remarks := Some ''Fixed''\<rparr>]
       = Inr [ex_complaint\<lparr>status := Pending, admin_remarks := None, updated_at := 99\<rparr>]"
proof -
  let ?sel = "merge_profile None (ex_complaint\<lparr>status := Resolved\<rparr>)"
  have admin: "has_role ex_roles ''u-1'' Admin"
    by (simp add: ex_roles_def has_role_def)
  have sel: "a_selectedComplaint ex_admin_state = Some ?sel"
    by (simp add: ex_admin_state_def)
  have key: "id ?sel = ''c-1''"
    by (simp add: merge_profile_def ex_complaint_def complaints_row.defs)
  from admin_update_any_status
         [OF admin sel, of ex_admin_backend 99
            "[ex_complaint\<lparr>status := Resolved, admin_remarks := Some ''Fixed''\<rparr>]"]
  obtain u
    where sent: "sent_updates (snd (handleUpdateComplaint ex_admin_backend ex_admin_state))
                   = [(id ?sel, u)]"
      and st: "upd_status u = a_newStatus ex_admin_state"
      and rem: "upd_admin_remarks u
                  = (if a_adminRemarks ex_admin_state = '''' then None
                     else Some (a_adminRemarks ex_admin_state))"
      and upd: "update_complaint ex_roles ''u-1'' 99 u (id ?sel)
                  [ex_complaint\<lparr>status := Resolved, admin_remarks := Some ''Fixed''\<rparr>]
                = Inr (map (\<lambda>c. if id c = id ?sel
                                   then c\<lparr>status := a_newStatus ex_admin_state,
                                          admin_remarks := upd_admin_remarks u,
                                          updated_at := 99\<rparr>
                                   else c)
                         [ex_complaint\<lparr>status := Resolved, admin_remarks := Some ''Fixed''\<rparr>])"
    by blast
  have u: "u = \<lparr>upd_status = Pending, upd_admin_remarks = None\<rparr>"
    using st rem by (cases u) (simp add: ex_admin_state_def)
  from sent upd show ?thesis
    unfolding u key by (simp add: ex_admin_state_def ex_complaint_def)
qed

section \<open>The \<open>create-admin\<close> edge function: properties\<close>

text \<open>
  C10, as the code has it. An \<open>OPTIONS\<close> request is answered "ok" with no call at
  all. For any other method: when \<open>createClient\<close> throws, the reply is that of the
  \<open>catch\<close> and nothing is called; when \<open>listUsers\<close> is rejected, the reply is that of the
  \<open>catch\<close> and nothing else is called. Otherwise the function looks for an account
  with the reserved address among the listed users (a null listing has none; the
  listing's error is not read): if there is one, it replies 200 "Admin account already
  exists" and calls nothing else; if there is none, it calls \<open>createUser\<close> once, with
  the reserved address, the password "password123", the email confirmed and the name
  "Admin", and replies 200 exactly when that call answers without an error and with
  the new user, 400 otherwise.
\<close>

theorem create_admin_bootstrap:
  "(http_method req = ''OPTIONS'' \<longrightarrow>
      create_admin d req = (\<lparr>res_status = 200, res_body = Text ''ok''\<rparr>, []))
   \<and> (http_method req \<noteq> ''OPTIONS'' \<longrightarrow>
        (\<forall>t. createClient d (env_or_empty d ''SUPABASE_URL'')
                (env_or_empty d ''SUPABASE_SERVICE_ROLE_KEY'') = Inl t \<longrightarrow>
             create_admin d req = (catch_reply t, []))
      \<and> (\<forall>api. createClient d (env_or_empty d ''SUPABASE_URL'')
                  (env_or_empty d ''SUPABASE_SERVICE_ROLE_KEY'') = Inr api \<longrightarrow>
             (\<forall>t. listUsers api = Inl t \<longrightarrow>
                  create_admin d req = (catch_reply t, [List_users]))
           \<and> (\<forall>listed. listUsers api = Inr listed \<longrightarrow>
                  (list_ex (\<lambda>u. u_email u = Some bootstrap_email)
                     (case data listed of None \<Rightarrow> [] | Some users \<Rightarrow> users) \<longrightarrow>
                     create_admin d req
                       = (\<lparr>res_status = 200,
                           res_body = Message ''Admin account already exists''\<rparr>,
                          [List_users]))
                \<and> (\<not> list_ex (\<lambda>u. u_email u = Some bootstrap_email)
                       (case data listed of None \<Rightarrow> [] | Some users \<Rightarrow> users) \<longrightarrow>
                     snd (create_admin d req)
                       = [List_users,
                          Create_user \<lparr>arg_email = bootstrap_email,
                                       arg_password = ''password123'',
                                       arg_email_confirm = True, arg_full_name = ''Admin''\<rparr>]
                     \<and> (res_status (fst (create_admin d req)) = 200
                          \<longleftrightarrow> (\<exists>res newUser.
                                 createUser api
                                   \<lparr>arg_email = bootstrap_email, arg_password = ''password123'',
                                    arg_email_confirm = True, arg_full_name = ''Admin''\<rparr>
                                   = Inr res
                                 \<and> cu_error res = None \<and> cu_user res = Some newUser))
                     \<and> res_status (fst (create_admin d req)) \<in> {200, 400}))))"
proof (intro conjI allI impI)
  assume "http_method req = ''OPTIONS''"
  then show "create_admin d req = (\<lparr>res_status = 200, res_body = Text ''ok''\<rparr>, [])"
    by (simp add: create_admin_def)
next
  fix t
  assume "http_method req \<noteq> ''OPTIONS''"
    and "createClient d (env_or_empty d ''SUPABASE_URL'')
           (env_or_empty d ''SUPABASE_SERVICE_ROLE_KEY'') = Inl t"
  then show "create_admin d req = (catch_reply t, [])"
    by (simp add: create_admin_def)
next
  fix api t
  assume "http_method req \<noteq> ''OPTIONS''"
    and "createClient d (env_or_empty d ''SUPABASE_URL'')
           (env_or_empty d ''SUPABASE_SERVICE_ROLE_KEY'') = Inr api"
    and "listUsers api = Inl t"
  then show "create_admin d req = (catch_reply t, [List_users])"
    by (simp add: create_admin_def)
next
  fix api listed
  assume "http_method req \<noteq> ''OPTIONS''"
    and "createClient d (env_or_empty d ''SUPABASE_URL'')
           (env_or_empty d ''SUPABASE_SERVICE_ROLE_KEY'') = Inr api"
    and "listUsers api = Inr listed"
    and "list_ex (\<lambda>u. u_email u = Some bootstrap_email)
           (case data listed of None \<Rightarrow> [] | Some users \<Rightarrow> users)"
  then show "create_admin d req
               = (\<lparr>res_status = 200, res_body = Message ''Admin account already exists''\<rparr>,
                  [List_users])"
    by (cases "data listed") (simp_all add: create_admin_def)
next
  fix api listed
  let ?args = "\<lparr>arg_email = bootstrap_email, arg_password = ''password123'',
                arg_email_confirm = True, arg_full_name = ''Admin''\<rparr>"
  assume not_options: "http_method req \<noteq> ''OPTIONS''"
    and client: "createClient d (env_or_empty d ''SUPABASE_URL'')
                   (env_or_empty d ''SUPABASE_SERVICE_ROLE_KEY'') = Inr api"
    and listed: "listUsers api = Inr listed"
    and absent: "\<not> list_ex (\<lambda>u. u_email u = Some bootstrap_email)
                     (case data listed of None \<Rightarrow> [] | Some users \<Rightarrow> users)"
  have no: "\<not> (case data listed of
                 None \<Rightarrow> False
               | Some users \<Rightarrow> list_ex (\<lambda>u. u_email u = Some bootstrap_email) users)"
    using absent by (cases "data listed") simp_all
  have run: "create_admin d req =
               (case createUser api ?args of
                  Inl t \<Rightarrow> (catch_reply t, [List_users, Create_user ?args])
                | Inr res \<Rightarrow>
                    (case cu_error res of
                       Some createError \<Rightarrow>
                         (catch_reply createError, [List_users, Create_user ?args])
                     | None \<Rightarrow>
                         (case cu_user res of
                            None \<Rightarrow>
                              (catch_reply (Thrown_error (null_read_message d)),
                               [List_users, Create_user ?args])
                          | Some newUser \<Rightarrow>
                              (\<lparr>res_status = 200,
                                res_body = Message_user ''Admin account created successfully''
                                             (u_id newUser) (u_email newUser)\<rparr>,
                               [List_users, Create_user ?args]))))"
    using not_options client listed no by (simp add: create_admin_def Let_def)
  show "snd (create_admin d req) = [List_users, Create_user ?args]"
    unfolding run by (simp split: sum.splits option.splits)
  show "res_status (fst (create_admin d req)) = 200
          \<longleftrightarrow> (\<exists>res newUser. createUser api ?args = Inr res
                 \<and> cu_error res = None \<and> cu_user res = Some newUser)"
    unfolding run by (auto simp: catch_reply_def split: sum.splits option.splits)
  show "res_status (fst (create_admin d req)) \<in> {200, 400}"
    unfolding run by (simp add: catch_reply_def split: sum.splits option.splits)
qed

theorem create_admin_bootstrap_witness:
  "create_admin ex_deno \<lparr>http_method = ''OPTIONS''\<rparr>
     = (\<lparr>res_status = 200, res_body = Text ''ok''\<rparr>, [])
   \<and> create_admin
       (ex_deno\<lparr>createClient :=
                  (\<lambda>url key. Inr (ex_api\<lparr>listUsers :=
                     Inr \<lparr>data = Some [ex_user, \<lparr>u_id = ''u-1'', u_email = Some ''admin@brototype.com''\<rparr>],
                          error = None\<rparr>\<rparr>))\<rparr>)
       \<lparr>http_method = ''POST''\<rparr>
     = (\<lparr>res_status = 200, res_body = Message ''Admin account already exists''\<rparr>, [List_users])
   \<and> snd (create_admin ex_deno \<lparr>http_method = ''POST''\<rparr>)
     = [List_users,
        Create_user \<lparr>arg_email = ''admin@brototype.com'', arg_password = ''password123'',
                     arg_email_confirm = True, arg_full_name = ''Admin''\<rparr>]
   \<and> res_status (fst (create_admin ex_deno \<lparr>http_method = ''POST''\<rparr>)) = 200"
proof -
  let ?listing = "\<lparr>data = Some [ex_user, \<lparr>u_id = ''u-1'', u_email = Some ''admin@brototype.com''\<rparr>],
                   error = None\<rparr> :: auth_user list pg_result"
  let ?there = "ex_deno\<lparr>createClient := (\<lambda>url key. Inr (ex_api\<lparr>listUsers := Inr ?listing\<rparr>))\<rparr>"
  let ?post = "\<lparr>http_method = ''POST''\<rparr>"
  have post: "http_method ?post \<noteq> ''OPTIONS''" by simp
  have c1: "createClient ?there (env_or_empty ?there ''SUPABASE_URL'')
              (env_or_empty ?there ''SUPABASE_SERVICE_ROLE_KEY'')
              = Inr (ex_api\<lparr>listUsers := Inr ?listing\<rparr>)"
    by simp
  have l1: "listUsers (ex_api\<lparr>listUsers := Inr ?listing\<rparr>) = Inr ?listing"
    by simp
  have in1: "list_ex (\<lambda>u. u_email u = Some bootstrap_email)
               (case data ?listing of None \<Rightarrow> [] | Some users \<Rightarrow> users)"
    by (simp add: ex_user_def)
  have c2: "createClient ex_deno (env_or_empty ex_deno ''SUPABASE_URL'')
              (env_or_empty ex_deno ''SUPABASE_SERVICE_ROLE_KEY'') = Inr ex_api"
    by (simp add: ex_deno_def env_or_empty_def)
  have l2: "listUsers ex_api = Inr \<lparr>data = Some [ex_user], error = None\<rparr>"
    by (simp add: ex_api_def)
  have out2: "\<not> list_ex (\<lambda>u. u_email u = Some bootstrap_email)
                  (case data (\<lparr>data = Some [ex_user], error = None\<rparr> :: auth_user list pg_result)
                   of None \<Rightarrow> [] | Some users \<Rightarrow> users)"
    by (simp add: ex_user_def)
  have made: "\<exists>res newUser.
                createUser ex_api \<lparr>arg_email = bootstrap_email, arg_password = ''password123'',
                                   arg_email_confirm = True, arg_full_name = ''Admin''\<rparr> = Inr res
                \<and> cu_error res = None \<and> cu_user res = Some newUser"
    by (simp add: ex_api_def)
  have a: "create_admin ex_deno \<lparr>http_method = ''OPTIONS''\<rparr>
             = (\<lparr>res_status = 200, res_body = Text ''ok''\<rparr>, [])"
    using create_admin_bootstrap[of "\<lparr>http_method = ''OPTIONS''\<rparr>" ex_deno] by simp
  have b: "create_admin ?there ?post
             = (\<lparr>res_status = 200, res_body = Message ''Admin account already exists''\<rparr>,
                [List_users])"
    using create_admin_bootstrap[of ?post ?there] post c1 l1 in1 by blast
  have c: "snd (create_admin ex_deno ?post)
             = [List_users,
                Create_user \<lparr>arg_email = bootstrap_email, arg_password = ''password123'',
                             arg_email_confirm = True, arg_full_name = ''Admin''\<rparr>]
           \<and> res_status (fst (create_admin ex_deno ?post)) = 200"
    using create_admin_bootstrap[of ?post ex_deno] post c2 l2 out2 made by blast
  from a b c show ?thesis by simp
qed

text \<open>
  C10 as stated fails on four requests, none of which finds an account with the
  reserved address. An \<open>OPTIONS\<close> request is answered "ok" with no look at the accounts.
  With \<open>SUPABASE_URL\<close> unset and a \<open>createClient\<close> that refuses an empty URL, and with
  a rejected \<open>listUsers\<close>, the function answers 400 without having checked anything and
  without creating the account. With a \<open>createUser\<close> that answers with an error, the
  account the function asked for is not created and the reply is 400.
\<close>

theorem create_admin_counterexample:
  "create_admin ex_deno \<lparr>http_method = ''OPTIONS''\<rparr>
     = (\<lparr>res_status = 200, res_body = Text ''ok''\<rparr>, [])
   \<and> create_admin (ex_deno\<lparr>env_get := (\<lambda>name. None)\<rparr>) \<lparr>http_method = ''POST''\<rparr>
     = (\<lparr>res_status = 400, res_body = Error_message ''supabaseUrl is required.''\<rparr>, [])
   \<and> create_admin
       (ex_deno\<lparr>createClient :=
                  (\<lambda>url key. Inr (ex_api\<lparr>listUsers := Inl (Thrown_error ''fetch failed'')\<rparr>))\<rparr>)
       \<lparr>http_method = ''POST''\<rparr>
     = (\<lparr>res_status = 400, res_body = Error_message ''fetch failed''\<rparr>, [List_users])
   \<and> create_admin
       (ex_deno\<lparr>createClient :=
                  (\<lambda>url key. Inr (ex_api\<lparr>createUser :=
                     (\<lambda>args. Inr \<lparr>cu_user = None,
                                    cu_error = Some (Thrown_error ''Password is too weak'')\<rparr>)\<rparr>))\<rparr>)
       \<lparr>http_method = ''POST''\<rparr>
     = (\<lparr>res_status = 400, res_body = Error_message ''Password is too weak''\<rparr>,
        [List_users,
         Create_user \<lparr>arg_email = ''admin@brototype.com'', arg_password = ''password123'',
                      arg_email_confirm = True, arg_full_name = ''Admin''\<rparr>])"
  by (simp add: create_admin_def ex_deno_def ex_api_def ex_user_def env_or_empty_def
        catch_reply_def)

end
